theory Spec2Isabelle
  imports Complex_Main
begin

section \<open>The dashboard script \<open>app.py\<close> as state-passing functions\<close>

text \<open>
  The script has one module-level fetch (the ticker list, line 24), two figure helpers
  (\<open>common_layout\<close>, \<open>empty_figure\<close>) and one callback (\<open>update_graph\<close>).
  Everything else it does happens inside third-party libraries (requests, pandas,
  datetime, plotly). Those library calls are the parameters of the model, collected in
  the record \<open>env\<close>; what the script itself does with their results (the order of the
  calls, which exception ends the callback, what is passed on to the chart) is written
  out. An exception is a value \<open>Inl e\<close>; the calls that leave the process or parse
  a page are appended to a trace, which is the only state the callback threads through.
\<close>

subsection \<open>Exceptions, requests and the call trace\<close>

datatype error =
  ValueError | IndexError | KeyError | AttributeError | OverflowError | OSError
  | RequestException

text \<open>The arguments of one \<open>requests.get\<close> call: the URL, the headers and the
  \<open>timeout\<close> keyword (\<open>None\<close> when the call passes none).\<close>

record request =
  req_url :: string
  req_headers :: "(string \<times> string) list"
  req_timeout :: "rat option"

datatype call = HttpGet request | ReadHtml string

text \<open>A pandas DataFrame: its columns in positional order, each a label and its cells.
  The type \<open>'v\<close> of a cell (a number, a string, NaN, a timestamp) is left open.\<close>

type_synonym 'v frame = "(string \<times> 'v list) list"

text \<open>The naive \<open>datetime\<close> that \<open>strptime\<close> builds from a \<open>%Y-%m-%d\<close> string
  (its time of day is midnight).\<close>

record datetime =
  dt_year :: nat
  dt_month :: nat
  dt_day :: nat

subsection \<open>The library calls the script depends on\<close>

text \<open>
  \<^item> \<open>strptime s\<close> is \<open>datetime.strptime(s, "%Y-%m-%d")\<close>; \<open>None\<close> is its ValueError.
  \<^item> \<open>timestamp d\<close> is \<open>d.timestamp()\<close>, a float holding a rational number; it depends
    on the local time zone and may raise for dates the platform cannot convert.
  \<^item> \<open>http_get k rq\<close> is the \<open>.text\<close> of the response to request \<open>rq\<close> when \<open>k\<close>
    calls have been traced before it, or the exception \<open>requests.get\<close> raises. The
    same request may be answered differently at different times.
  \<^item> \<open>read_html t\<close> is \<open>pd.read_html(t)\<close>: the tables of a page, or an exception.
  \<^item> \<open>to_numeric c\<close> is the strict conversion of one cell by \<open>pd.to_numeric\<close>;
    \<open>None\<close> means the cell is invalid. \<open>nan\<close> is the missing value NaN.
  \<^item> \<open>to_datetime col\<close> is \<open>pd.to_datetime\<close> on a column.
\<close>

record 'v env =
  strptime :: "string \<Rightarrow> datetime option"
  timestamp :: "datetime \<Rightarrow> error + rat"
  http_get :: "nat \<Rightarrow> request \<Rightarrow> error + string"
  read_html :: "string \<Rightarrow> error + 'v frame list"
  to_numeric :: "'v \<Rightarrow> 'v option"
  nan :: "'v"
  to_datetime :: "'v list \<Rightarrow> error + 'v list"

subsection \<open>Python built-ins: truthiness, \<open>int\<close>, \<open>str\<close>\<close>

text \<open>\<open>not v\<close> for a value that is \<open>None\<close> or a string.\<close>

definition py_not :: "string option \<Rightarrow> bool" where
  "py_not v = (case v of None \<Rightarrow> True | Some s \<Rightarrow> s = [])"

text \<open>\<open>int(x)\<close> on a float truncates towards zero.\<close>

definition py_int :: "rat \<Rightarrow> int" where
  "py_int q = (if 0 \<le> q then \<lfloor>q\<rfloor> else \<lceil>q\<rceil>)"

definition digit_char :: "nat \<Rightarrow> char" where
  "digit_char d = ''0123456789'' ! d"

function str_nat :: "nat \<Rightarrow> string" where
  "str_nat n = (if n < 10 then [digit_char n] else str_nat (n div 10) @ [digit_char (n mod 10)])"
  by pat_completeness auto
termination
  by (relation "measure (\<lambda>n. n)") auto

declare str_nat.simps [simp del]

text \<open>\<open>str(i)\<close> for an integer.\<close>

definition str_int :: "int \<Rightarrow> string" where
  "str_int i = (if i < 0 then CHR ''-'' # str_nat (nat (- i)) else str_nat (nat i))"

subsection \<open>Module constants (lines 20-23)\<close>

definition headers :: "(string \<times> string) list" where
  "headers = [(''User-Agent'',
     ''Mozilla/5.0 (Windows NT 10.0; Win64; x64) AppleWebKit/537.36 (KHTML, like Gecko) Chrome/91.0.4472.124 Safari/537.36'')]"

definition url_stocks :: string where
  "url_stocks = ''https://finance.yahoo.com/markets/stocks/most-active/?start=0&count=100''"

subsection \<open>The two traced calls\<close>

text \<open>\<open>requests.get(url, headers=headers).text\<close>: no other keyword is passed.\<close>

definition requests_get :: "'v env \<Rightarrow> string \<Rightarrow> call list \<Rightarrow> (error + string) \<times> call list" where
  "requests_get E url tr =
     (let rq = \<lparr>req_url = url, req_headers = headers, req_timeout = None\<rparr>
      in (http_get E (length tr) rq, tr @ [HttpGet rq]))"

definition pd_read_html :: "'v env \<Rightarrow> string \<Rightarrow> call list \<Rightarrow> (error + 'v frame list) \<times> call list" where
  "pd_read_html E text tr = (read_html E text, tr @ [ReadHtml text])"

subsection \<open>DataFrame operations used by the script\<close>

text \<open>\<open>tables[0]\<close>.\<close>

definition first_table :: "'a list \<Rightarrow> error + 'a" where
  "first_table ts = (case ts of [] \<Rightarrow> Inl IndexError | t # _ \<Rightarrow> Inr t)"

text \<open>\<open>df[name]\<close>: KeyError when no column has the label.\<close>

definition getitem :: "'v frame \<Rightarrow> string \<Rightarrow> error + 'v list" where
  "getitem df name = (case map_of df name of None \<Rightarrow> Inl KeyError | Some col \<Rightarrow> Inr col)"

text \<open>\<open>df[name] = col\<close>: replaces the column with that label, or appends a new one.\<close>

definition setitem :: "'v frame \<Rightarrow> string \<Rightarrow> 'v list \<Rightarrow> 'v frame" where
  "setitem df name col =
     (if name \<in> set (map fst df)
      then map (\<lambda>(n, c). if n = name then (n, col) else (n, c)) df
      else df @ [(name, col)])"

text \<open>\<open>df.columns = names\<close>: pandas raises ValueError (length mismatch) unless there is
  one name per column; the old labels are discarded whatever they were.\<close>

definition set_columns :: "string list \<Rightarrow> 'v frame \<Rightarrow> error + 'v frame" where
  "set_columns names df =
     (if length names \<noteq> length df then Inl ValueError else Inr (zip names (map snd df)))"

text \<open>\<open>pd.to_numeric(col, errors='coerce')\<close>, cell by cell: an invalid cell becomes NaN
  and nothing is raised.\<close>

definition to_numeric_coerce :: "'v env \<Rightarrow> 'v \<Rightarrow> 'v" where
  "to_numeric_coerce E c = (case to_numeric E c of None \<Rightarrow> nan E | Some v \<Rightarrow> v)"

text \<open>\<open>data.iloc[:, 1:] = data.iloc[:, 1:].apply(pd.to_numeric, errors='coerce')\<close>.\<close>

definition coerce_tail :: "'v env \<Rightarrow> 'v frame \<Rightarrow> 'v frame" where
  "coerce_tail E df =
     take 1 df @ map (\<lambda>(n, col). (n, map (to_numeric_coerce E) col)) (drop 1 df)"

subsection \<open>Figures (\<open>plotly.graph_objects\<close>)\<close>

record 'v scatter =
  sc_x :: "'v list"
  sc_y :: "'v list"
  sc_mode :: string

text \<open>The layout properties the script touches; \<open>None\<close> is "not set". The same record
  serves as the keyword arguments of \<open>update_layout\<close>.\<close>

record layout =
  title_text :: "string option"
  title_x :: "rat option"
  width :: "int option"
  height :: "int option"
  template :: "string option"

record 'v figure =
  fig_data :: "'v scatter list"
  fig_layout :: layout

definition no_kwargs :: layout where
  "no_kwargs = \<lparr>title_text = None, title_x = None, width = None, height = None, template = None\<rparr>"

definition Figure :: "'v scatter list \<Rightarrow> 'v figure" where
  "Figure traces = \<lparr>fig_data = traces, fig_layout = no_kwargs\<rparr>"

definition add_trace :: "'v scatter \<Rightarrow> 'v figure \<Rightarrow> 'v figure" where
  "add_trace t fig = fig\<lparr>fig_data := fig_data fig @ [t]\<rparr>"

definition override :: "'a option \<Rightarrow> 'a option \<Rightarrow> 'a option" where
  "override new old = (case new of None \<Rightarrow> old | Some v \<Rightarrow> Some v)"

text \<open>\<open>fig.update_layout(**kw)\<close>: every property given replaces the current one.\<close>

definition update_layout :: "layout \<Rightarrow> 'v figure \<Rightarrow> 'v figure" where
  "update_layout kw fig =
     fig\<lparr>fig_layout :=
        \<lparr>title_text = override (title_text kw) (title_text (fig_layout fig)),
         title_x = override (title_x kw) (title_x (fig_layout fig)),
         width = override (width kw) (width (fig_layout fig)),
         height = override (height kw) (height (fig_layout fig)),
         template = override (template kw) (template (fig_layout fig))\<rparr>\<rparr>"

text \<open>Lines 30-38.\<close>

definition common_layout :: "'v figure \<Rightarrow> 'v figure" where
  "common_layout fig =
     update_layout (no_kwargs\<lparr>title_x := Some (1 / 2), width := Some 800, height := Some 600,
                              template := Some ''plotly_white''\<rparr>) fig"

text \<open>Lines 40-45.\<close>

definition empty_figure :: "'v figure" where
  "empty_figure =
     (let fig = Figure [];
          fig = add_trace \<lparr>sc_x = [], sc_y = [], sc_mode = ''lines''\<rparr> fig;
          fig = update_layout (no_kwargs\<lparr>title_text := Some ''Loading Data...''\<rparr>) fig
      in common_layout fig)"

subsection \<open>Module start (line 24)\<close>

text \<open>\<open>stocks = pd.read_html(requests.get(url_stocks, headers=headers).text)[0]['Symbol'].to_list()\<close>.
  With several columns labelled \<open>Symbol\<close> the selection is a DataFrame, which has no
  \<open>to_list\<close>.\<close>

definition startup :: "'v env \<Rightarrow> call list \<Rightarrow> (error + 'v list) \<times> call list" where
  "startup E tr =
     (case requests_get E url_stocks tr of
        (Inl e, tr1) \<Rightarrow> (Inl e, tr1)
      | (Inr text, tr1) \<Rightarrow>
          (case pd_read_html E text tr1 of
             (Inl e, tr2) \<Rightarrow> (Inl e, tr2)
           | (Inr tables, tr2) \<Rightarrow>
               (case first_table tables of
                  Inl e \<Rightarrow> (Inl e, tr2)
                | Inr df \<Rightarrow>
                    (case getitem df ''Symbol'' of
                       Inl e \<Rightarrow> (Inl e, tr2)
                     | Inr col \<Rightarrow>
                         if length (filter (\<lambda>c. fst c = ''Symbol'') df) > 1
                         then (Inl AttributeError, tr2)
                         else (Inr col, tr2)))))"

subsection \<open>The callback \<open>update_graph\<close> (lines 93-114)\<close>

text \<open>\<open>int(datetime.strptime(s, "%Y-%m-%d").timestamp())\<close> (lines 97 and 98).\<close>

definition period :: "'v env \<Rightarrow> string \<Rightarrow> error + int" where
  "period E s =
     (case strptime E s of
        None \<Rightarrow> Inl ValueError
      | Some d \<Rightarrow> (case timestamp E d of Inl e \<Rightarrow> Inl e | Inr t \<Rightarrow> Inr (py_int t)))"

text \<open>Line 100.\<close>

definition url_history :: "string \<Rightarrow> int \<Rightarrow> int \<Rightarrow> string" where
  "url_history symbol period1 period2 =
     ''https://finance.yahoo.com/quote/'' @ symbol @ ''/history/?period1='' @ str_int period1
       @ ''&period2='' @ str_int period2"

definition history_columns :: "string list" where
  "history_columns = [''Date'', ''Open'', ''High'', ''Low'', ''Close'', ''Adj Close'', ''Volume'']"

text \<open>Lines 102-105: the table \<open>data\<close> as it stands after line 105.\<close>

definition history_table :: "'v env \<Rightarrow> string \<Rightarrow> call list \<Rightarrow> (error + 'v frame) \<times> call list" where
  "history_table E url tr =
     (case requests_get E url tr of
        (Inl e, tr1) \<Rightarrow> (Inl e, tr1)
      | (Inr text, tr1) \<Rightarrow>
          (case pd_read_html E text tr1 of
             (Inl e, tr2) \<Rightarrow> (Inl e, tr2)
           | (Inr tables, tr2) \<Rightarrow>
               (case first_table tables of
                  Inl e \<Rightarrow> (Inl e, tr2)
                | Inr data0 \<Rightarrow>
                    (case set_columns history_columns data0 of
                       Inl e \<Rightarrow> (Inl e, tr2)
                     | Inr data1 \<Rightarrow>
                         (let data2 = coerce_tail E data1 in
                          case getitem data2 ''Date'' of
                            Inl e \<Rightarrow> (Inl e, tr2)
                          | Inr dates \<Rightarrow>
                              (case to_datetime E dates of
                                 Inl e \<Rightarrow> (Inl e, tr2)
                               | Inr parsed \<Rightarrow> (Inr (setitem data2 ''Date'' parsed), tr2)))))))"

text \<open>Lines 106-112: the figure before \<open>common_layout\<close>.\<close>

definition price_figure :: "string \<Rightarrow> 'v list \<Rightarrow> 'v list \<Rightarrow> 'v figure" where
  "price_figure symbol xs ys =
     (let fig = Figure [\<lparr>sc_x = xs, sc_y = ys, sc_mode = ''lines''\<rparr>];
          fig = update_layout (no_kwargs\<lparr>title_text := Some (''Stock Prices: '' @ symbol)\<rparr>) fig;
          fig = update_layout (no_kwargs\<lparr>title_x := Some (1 / 2), width := Some 600,
                                          height := Some 400\<rparr>) fig
      in fig)"

text \<open>The callback. Its arguments are \<open>None\<close> or a string; past the guard of line 94 all
  three are strings.\<close>

definition update_graph ::
  "'v env \<Rightarrow> string option \<Rightarrow> string option \<Rightarrow> string option \<Rightarrow> call list
     \<Rightarrow> (error + 'v figure) \<times> call list" where
  "update_graph E symbol start_date end_date tr =
     (if py_not symbol \<or> py_not start_date \<or> py_not end_date then (Inr empty_figure, tr)
      else
        (case period E (the start_date) of
           Inl e \<Rightarrow> (Inl e, tr)
         | Inr period1 \<Rightarrow>
             (case period E (the end_date) of
                Inl e \<Rightarrow> (Inl e, tr)
              | Inr period2 \<Rightarrow>
                  (case history_table E (url_history (the symbol) period1 period2) tr of
                     (Inl e, tr') \<Rightarrow> (Inl e, tr')
                   | (Inr data, tr') \<Rightarrow>
                       (case getitem data ''Date'' of
                          Inl e \<Rightarrow> (Inl e, tr')
                        | Inr xs \<Rightarrow>
                            (case getitem data ''Adj Close'' of
                               Inl e \<Rightarrow> (Inl e, tr')
                             | Inr ys \<Rightarrow>
                                 (Inr (common_layout (price_figure (the symbol) xs ys)), tr')))))))"

subsection \<open>The running application\<close>

text \<open>
  The process runs line 24 once while the module is loaded; an exception there ends it.
  Afterwards the framework calls \<open>update_graph\<close> once per change of the three inputs.
  An exception in a callback ends that request cycle only; its figure, if any, goes to
  the browser and is not kept. The state of the process is the value of \<open>stocks\<close> and
  the trace of calls made so far.
\<close>

type_synonym inputs = "string option \<times> string option \<times> string option"

fun serve :: "'v env \<Rightarrow> inputs list \<Rightarrow> call list \<Rightarrow> call list" where
  "serve E [] tr = tr"
| "serve E ((symbol, start_date, end_date) # evs) tr =
     serve E evs (snd (update_graph E symbol start_date end_date tr))"

definition run_app :: "'v env \<Rightarrow> inputs list \<Rightarrow> (error + 'v list) \<times> call list" where
  "run_app E evs =
     (case startup E [] of
        (Inl e, tr) \<Rightarrow> (Inl e, tr)
      | (Inr stocks, tr) \<Rightarrow> (Inr stocks, serve E evs tr))"

text \<open>The requests for one URL in a trace.\<close>

fun gets_to :: "string \<Rightarrow> call list \<Rightarrow> request list" where
  "gets_to u [] = []"
| "gets_to u (HttpGet rq # tr) = (if req_url rq = u then rq # gets_to u tr else gets_to u tr)"
| "gets_to u (ReadHtml t # tr) = gets_to u tr"

fun http_gets :: "call list \<Rightarrow> request list" where
  "http_gets [] = []"
| "http_gets (HttpGet rq # tr) = rq # http_gets tr"
| "http_gets (ReadHtml t # tr) = http_gets tr"

fun parses :: "call list \<Rightarrow> string list" where
  "parses [] = []"
| "parses (HttpGet rq # tr) = parses tr"
| "parses (ReadHtml t # tr) = t # parses tr"

subsection \<open>A sample environment\<close>

text \<open>
  A small concrete instance of the library parameters, used to run the model: cells are
  integers, strings, NaN or timestamps; two dates parse (a third parses but its
  conversion to a timestamp raises); the network knows the ticker page and six history pages
  and is down once six calls have been traced; the page parser finds a table in four of
  them, an empty list of tables in one and raises on the last; the date parser rejects
  the site's footnote.
\<close>

datatype cell = Num int | Str string | NaN | Stamp string

definition sample_stocks :: "cell frame" where
  "sample_stocks =
     [(''Symbol'', [Str ''AAPL'', Str ''MSFT'']),
      (''Name'', [Str ''Apple Inc.'', Str ''Microsoft Corporation''])]"

definition sample_history :: "cell frame" where
  "sample_history =
     [(''Date'', [Str ''Jan 3, 2020'', Str ''Jan 2, 2020'']),
      (''Open'', [Num 7429, Num 7406]),
      (''High'', [Num 7514, Num 7515]),
      (''Low'', [Num 7413, Num 7380]),
      (''Close'', [Num 7436, Num 7509]),
      (''Adj Close'', [Str ''-'', Num 7288]),
      (''Volume'', [Str ''146322800'', Str ''135,480,400''])]"

text \<open>Seven columns again, but the site lists the adjusted close before the close.\<close>

definition sample_reordered :: "cell frame" where
  "sample_reordered =
     [(''Date'', [Str ''Jan 3, 2020'', Str ''Jan 2, 2020'']),
      (''Open'', [Num 15832, Num 15878]),
      (''High'', [Num 15995, Num 16073]),
      (''Low'', [Num 15806, Num 15833]),
      (''Adj Close'', [Num 15230, Num 15422]),
      (''Close'', [Num 15862, Num 16062]),
      (''Volume'', [Num 21116200, Num 22622100])]"

text \<open>A table that lost its last column.\<close>

definition sample_short :: "cell frame" where
  "sample_short = take 6 sample_history"

text \<open>A table whose last row is the site's footnote.\<close>

definition sample_footer :: "cell frame" where
  "sample_footer =
     [(''Date'', [Str ''Jan 3, 2020'', Str ''*Close price adjusted for splits.'']),
      (''Open'', [Num 136075, NaN]),
      (''High'', [Num 137212, NaN]),
      (''Low'', [Num 134547, NaN]),
      (''Close'', [Num 136090, NaN]),
      (''Adj Close'', [Num 136090, NaN]),
      (''Volume'', [Num 1186400, NaN])]"

definition sample_strptime :: "string \<Rightarrow> datetime option" where
  "sample_strptime s =
     (if s = ''2020-01-01'' then Some \<lparr>dt_year = 2020, dt_month = 1, dt_day = 1\<rparr>
      else if s = ''2020-01-03'' then Some \<lparr>dt_year = 2020, dt_month = 1, dt_day = 3\<rparr>
      else if s = ''0001-01-01'' then Some \<lparr>dt_year = 1, dt_month = 1, dt_day = 1\<rparr>
      else None)"

definition sample_timestamp :: "datetime \<Rightarrow> error + rat" where
  "sample_timestamp d =
     (if d = \<lparr>dt_year = 2020, dt_month = 1, dt_day = 1\<rparr> then Inr 1577836800
      else if d = \<lparr>dt_year = 2020, dt_month = 1, dt_day = 3\<rparr> then Inr 1578009600
      else Inl ValueError)"

definition sample_http_get :: "nat \<Rightarrow> request \<Rightarrow> error + string" where
  "sample_http_get k rq =
     (if 6 \<le> k then Inl RequestException
      else if req_url rq = url_stocks then Inr ''<stocks page>''
      else if req_url rq =
        ''https://finance.yahoo.com/quote/AAPL/history/?period1=1577836800&period2=1578009600''
        then Inr ''<history page>''
      else if req_url rq =
        ''https://finance.yahoo.com/quote/MSFT/history/?period1=1577836800&period2=1578009600''
        then Inr ''<reordered page>''
      else if req_url rq =
        ''https://finance.yahoo.com/quote/TSLA/history/?period1=1577836800&period2=1578009600''
        then Inr ''<short page>''
      else if req_url rq =
        ''https://finance.yahoo.com/quote/IBM/history/?period1=1577836800&period2=1578009600''
        then Inr ''<no tables>''
      else if req_url rq =
        ''https://finance.yahoo.com/quote/GOOG/history/?period1=1577836800&period2=1578009600''
        then Inr ''<footer page>''
      else if req_url rq =
        ''https://finance.yahoo.com/quote/AMZN/history/?period1=1577836800&period2=1578009600''
        then Inr ''<blank page>''
      else Inl RequestException)"

definition sample_read_html :: "string \<Rightarrow> error + cell frame list" where
  "sample_read_html t =
     (if t = ''<stocks page>'' then Inr [sample_stocks]
      else if t = ''<history page>'' then Inr [sample_history]
      else if t = ''<reordered page>'' then Inr [sample_reordered]
      else if t = ''<short page>'' then Inr [sample_short]
      else if t = ''<footer page>'' then Inr [sample_footer]
      else if t = ''<blank page>'' then Inr []
      else Inl ValueError)"

definition sample_to_numeric :: "cell \<Rightarrow> cell option" where
  "sample_to_numeric c =
     (case c of
        Num n \<Rightarrow> Some (Num n)
      | Str s \<Rightarrow> (if s = ''146322800'' then Some (Num 146322800) else None)
      | NaN \<Rightarrow> Some NaN
      | Stamp s \<Rightarrow> None)"

definition sample_to_datetime :: "cell list \<Rightarrow> error + cell list" where
  "sample_to_datetime col =
     (if Str ''*Close price adjusted for splits.'' \<in> set col then Inl ValueError
      else Inr (map (\<lambda>c. case c of Str s \<Rightarrow> Stamp s | c' \<Rightarrow> c') col))"

definition sample_env :: "cell env" where
  "sample_env =
     \<lparr>strptime = sample_strptime, timestamp = sample_timestamp, http_get = sample_http_get,
      read_html = sample_read_html, to_numeric = sample_to_numeric, nan = NaN,
      to_datetime = sample_to_datetime\<rparr>"

definition aapl_request :: request where
  "aapl_request =
     \<lparr>req_url = ''https://finance.yahoo.com/quote/AAPL/history/?period1=1577836800&period2=1578009600'',
      req_headers = headers, req_timeout = None\<rparr>"

definition aapl_figure :: "cell figure" where
  "aapl_figure =
     \<lparr>fig_data = [\<lparr>sc_x = [Stamp ''Jan 3, 2020'', Stamp ''Jan 2, 2020''],
                    sc_y = [NaN, Num 7288], sc_mode = ''lines''\<rparr>],
      fig_layout = \<lparr>title_text = Some ''Stock Prices: AAPL'', title_x = Some (1 / 2),
                    width = Some 800, height = Some 600, template = Some ''plotly_white''\<rparr>\<rparr>"

definition stocks_request :: request where
  "stocks_request = \<lparr>req_url = url_stocks, req_headers = headers, req_timeout = None\<rparr>"

definition msft_request :: request where
  "msft_request =
     \<lparr>req_url = ''https://finance.yahoo.com/quote/MSFT/history/?period1=1577836800&period2=1578009600'',
      req_headers = headers, req_timeout = None\<rparr>"

text \<open>The chart drawn from the reordered table: its y values are the column the site
  calls Close.\<close>

definition msft_figure :: "cell figure" where
  "msft_figure =
     \<lparr>fig_data = [\<lparr>sc_x = [Stamp ''Jan 3, 2020'', Stamp ''Jan 2, 2020''],
                    sc_y = [Num 15862, Num 16062], sc_mode = ''lines''\<rparr>],
      fig_layout = \<lparr>title_text = Some ''Stock Prices: MSFT'', title_x = Some (1 / 2),
                    width = Some 800, height = Some 600, template = Some ''plotly_white''\<rparr>\<rparr>"

definition sample_inputs :: inputs where
  "sample_inputs = (Some ''AAPL'', Some ''2020-01-01'', Some ''2020-01-03'')"

section \<open>Properties\<close>

subsection \<open>What the fetch of lines 102-105 returns\<close>

lemma length_seven:
  "length xs = 7 \<Longrightarrow> \<exists>a b c d e f g. xs = [a, b, c, d, e, f, g]"
  by (simp add: numeral_eq_Suc length_Suc_conv) blast

lemma length_history_columns: "length history_columns = 7"
  by (simp add: history_columns_def)

lemma prepared_frame:
  assumes "length raw = 7"
  shows "setitem (coerce_tail E (zip history_columns (map snd raw))) ''Date'' parsed
           = zip history_columns (parsed # map (map (to_numeric_coerce E)) (map snd (tl raw)))"
    and "getitem (coerce_tail E (zip history_columns (map snd raw))) ''Date'' = Inr (snd (hd raw))"
proof -
  from length_seven [OF assms] obtain a b c d e f g where "raw = [a, b, c, d, e, f, g]" by blast
  then show "setitem (coerce_tail E (zip history_columns (map snd raw))) ''Date'' parsed
           = zip history_columns (parsed # map (map (to_numeric_coerce E)) (map snd (tl raw)))"
    and "getitem (coerce_tail E (zip history_columns (map snd raw))) ''Date'' = Inr (snd (hd raw))"
    by (simp_all add: history_columns_def coerce_tail_def setitem_def getitem_def)
qed

lemma history_table_eq:
  "history_table E url tr =
     (let rq = \<lparr>req_url = url, req_headers = headers, req_timeout = None\<rparr> in
      case http_get E (length tr) rq of
        Inl e \<Rightarrow> (Inl e, tr @ [HttpGet rq])
      | Inr text \<Rightarrow>
          (let tr2 = tr @ [HttpGet rq, ReadHtml text] in
           case read_html E text of
             Inl e \<Rightarrow> (Inl e, tr2)
           | Inr [] \<Rightarrow> (Inl IndexError, tr2)
           | Inr (raw # rest) \<Rightarrow>
               if length raw \<noteq> 7 then (Inl ValueError, tr2)
               else (case to_datetime E (snd (hd raw)) of
                       Inl e \<Rightarrow> (Inl e, tr2)
                     | Inr parsed \<Rightarrow>
                         (Inr (zip history_columns
                                 (parsed # map (map (to_numeric_coerce E)) (map snd (tl raw)))),
                          tr2))))"
proof (cases "http_get E (length tr) \<lparr>req_url = url, req_headers = headers, req_timeout = None\<rparr>")
  case (Inl e)
  then show ?thesis
    by (simp add: history_table_def requests_get_def)
next
  case (Inr page)
  note get = this
  show ?thesis
  proof (cases "read_html E page")
    case (Inl e)
    with get show ?thesis
      by (simp add: history_table_def requests_get_def pd_read_html_def)
  next
    case (Inr tables)
    note parse = this
    show ?thesis
    proof (cases tables)
      case Nil
      with get parse show ?thesis
        by (simp add: history_table_def requests_get_def pd_read_html_def first_table_def)
    next
      case (Cons raw rest)
      show ?thesis
      proof (cases "length raw = 7")
        case False
        with get parse Cons show ?thesis
          by (simp add: history_table_def requests_get_def pd_read_html_def first_table_def
                set_columns_def length_history_columns)
      next
        case True
        with get parse Cons show ?thesis
          by (simp add: history_table_def requests_get_def pd_read_html_def first_table_def
                set_columns_def length_history_columns prepared_frame split: sum.splits)
      qed
    qed
  qed
qed

lemma history_frame_getitem:
  "getitem (zip history_columns (c0 # cs)) ''Date'' = Inr c0"
  "length cs = 6 \<Longrightarrow> getitem (zip history_columns (c0 # cs)) ''Adj Close'' = Inr (cs ! 4)"
   apply (simp add: history_columns_def getitem_def)
  apply (simp add: numeral_eq_Suc length_Suc_conv)
  apply (auto simp: history_columns_def getitem_def)
  done

lemma history_table_Inr:
  assumes "history_table E url tr = (Inr data, tr')"
  shows "\<exists>page raw rest parsed.
           http_get E (length tr) \<lparr>req_url = url, req_headers = headers, req_timeout = None\<rparr>
             = Inr page
           \<and> read_html E page = Inr (raw # rest) \<and> length raw = 7
           \<and> to_datetime E (snd (hd raw)) = Inr parsed
           \<and> data = zip history_columns
                       (parsed # map (map (to_numeric_coerce E)) (map snd (tl raw)))
           \<and> tr' = tr @ [HttpGet \<lparr>req_url = url, req_headers = headers, req_timeout = None\<rparr>,
                          ReadHtml page]"
  using assms unfolding history_table_eq Let_def
  by (auto split: sum.splits list.splits if_splits)

lemma update_graph_guard:
  "py_not symbol \<or> py_not start_date \<or> py_not end_date \<Longrightarrow>
     update_graph E symbol start_date end_date tr = (Inr empty_figure, tr)"
  by (simp add: update_graph_def)

lemma update_graph_Inr:
  assumes "s \<noteq> []" "a \<noteq> []" "b \<noteq> []"
    and "update_graph E (Some s) (Some a) (Some b) tr = (Inr fig, tr')"
  shows "\<exists>p1 p2 page raw rest parsed.
           period E a = Inr p1 \<and> period E b = Inr p2
           \<and> http_get E (length tr)
                \<lparr>req_url = url_history s p1 p2, req_headers = headers, req_timeout = None\<rparr>
               = Inr page
           \<and> read_html E page = Inr (raw # rest) \<and> length raw = 7
           \<and> to_datetime E (snd (hd raw)) = Inr parsed
           \<and> history_table E (url_history s p1 p2) tr
               = (Inr (zip history_columns
                         (parsed # map (map (to_numeric_coerce E)) (map snd (tl raw)))), tr')
           \<and> fig = common_layout
                      (price_figure s parsed (map (to_numeric_coerce E) (snd (raw ! 5))))"
proof -
  from assms obtain p1 where p1: "period E a = Inr p1"
    by (auto simp: update_graph_def py_not_def split: sum.splits)
  from assms p1 obtain p2 where p2: "period E b = Inr p2"
    by (auto simp: update_graph_def py_not_def split: sum.splits)
  from assms p1 p2 obtain data where
    ht: "history_table E (url_history s p1 p2) tr = (Inr data, tr')"
    by (auto simp: update_graph_def py_not_def split: sum.splits prod.splits)
  from history_table_Inr [OF ht] obtain page raw rest parsed where
    h: "http_get E (length tr)
          \<lparr>req_url = url_history s p1 p2, req_headers = headers, req_timeout = None\<rparr> = Inr page"
       "read_html E page = Inr (raw # rest)" "length raw = 7"
       "to_datetime E (snd (hd raw)) = Inr parsed"
       "data = zip history_columns (parsed # map (map (to_numeric_coerce E)) (map snd (tl raw)))"
    by blast
  from h(3) have len: "length (map (map (to_numeric_coerce E)) (map snd (tl raw))) = 6"
    by simp
  from h(3) have nth: "map (map (to_numeric_coerce E)) (map snd (tl raw)) ! 4
      = map (to_numeric_coerce E) (snd (raw ! 5))"
    by (simp add: nth_tl)
  have date: "getitem data ''Date'' = Inr parsed"
    unfolding h(5) by (rule history_frame_getitem(1))
  have adj: "getitem data ''Adj Close'' = Inr (map (to_numeric_coerce E) (snd (raw ! 5)))"
    unfolding h(5) using history_frame_getitem(2) [OF len, of parsed] nth by simp
  from assms p1 p2 ht date adj have
    "fig = common_layout (price_figure s parsed (map (to_numeric_coerce E) (snd (raw ! 5))))"
    by (simp add: update_graph_def py_not_def)
  with p1 p2 h ht show ?thesis by blast
qed

subsection \<open>Figures\<close>

lemma py_not_False: "\<not> py_not v \<longleftrightarrow> (\<exists>s. v = Some s \<and> s \<noteq> [])"
  by (cases v) (simp_all add: py_not_def)

lemma common_layout_fields:
  "title_text (fig_layout (common_layout fig)) = title_text (fig_layout fig)"
  "title_x (fig_layout (common_layout fig)) = Some (1 / 2)"
  "width (fig_layout (common_layout fig)) = Some 800"
  "height (fig_layout (common_layout fig)) = Some 600"
  "template (fig_layout (common_layout fig)) = Some ''plotly_white''"
  "fig_data (common_layout fig) = fig_data fig"
  by (simp_all add: common_layout_def update_layout_def no_kwargs_def override_def)

lemma price_figure_fields:
  "title_text (fig_layout (price_figure symbol xs ys)) = Some (''Stock Prices: '' @ symbol)"
  "width (fig_layout (price_figure symbol xs ys)) = Some 600"
  "height (fig_layout (price_figure symbol xs ys)) = Some 400"
  "fig_data (price_figure symbol xs ys) = [\<lparr>sc_x = xs, sc_y = ys, sc_mode = ''lines''\<rparr>]"
  by (simp_all add: price_figure_def update_layout_def Figure_def no_kwargs_def override_def)

lemma empty_figure_eq:
  "empty_figure =
     common_layout
       (update_layout (no_kwargs\<lparr>title_text := Some ''Loading Data...''\<rparr>)
          (add_trace \<lparr>sc_x = [], sc_y = [], sc_mode = ''lines''\<rparr> (Figure [])))"
  by (simp add: empty_figure_def)

lemma empty_figure_value:
  "empty_figure =
     \<lparr>fig_data = [\<lparr>sc_x = [], sc_y = [], sc_mode = ''lines''\<rparr>],
      fig_layout = \<lparr>title_text = Some ''Loading Data...'', title_x = Some (1 / 2),
                    width = Some 800, height = Some 600, template = Some ''plotly_white''\<rparr>\<rparr>"
  by (simp add: empty_figure_def common_layout_def update_layout_def add_trace_def Figure_def
        no_kwargs_def override_def)

subsection \<open>The sample run\<close>

lemma sample_period_start: "period sample_env ''2020-01-01'' = Inr 1577836800"
  by (simp add: period_def sample_env_def sample_strptime_def sample_timestamp_def py_int_def)

lemma sample_period_end: "period sample_env ''2020-01-03'' = Inr 1578009600"
  by (simp add: period_def sample_env_def sample_strptime_def sample_timestamp_def py_int_def)

lemma sample_url: "url_history ''AAPL'' 1577836800 1578009600 = req_url aapl_request"
  by (simp add: url_history_def aapl_request_def str_int_def str_nat.simps digit_char_def)

lemma sample_history_table:
  "history_table sample_env (req_url aapl_request) [] =
     (Inr [(''Date'', [Stamp ''Jan 3, 2020'', Stamp ''Jan 2, 2020'']),
           (''Open'', [Num 7429, Num 7406]),
           (''High'', [Num 7514, Num 7515]),
           (''Low'', [Num 7413, Num 7380]),
           (''Close'', [Num 7436, Num 7509]),
           (''Adj Close'', [NaN, Num 7288]),
           (''Volume'', [Num 146322800, NaN])],
      [HttpGet aapl_request, ReadHtml ''<history page>''])"
  by (simp add: history_table_def requests_get_def pd_read_html_def aapl_request_def
        sample_env_def sample_http_get_def sample_read_html_def url_stocks_def first_table_def
        set_columns_def history_columns_def sample_history_def coerce_tail_def getitem_def
        setitem_def sample_to_datetime_def to_numeric_coerce_def sample_to_numeric_def)

lemma sample_update_graph:
  "update_graph sample_env (Some ''AAPL'') (Some ''2020-01-01'') (Some ''2020-01-03'') [] =
     (Inr aapl_figure, [HttpGet aapl_request, ReadHtml ''<history page>''])"
  by (simp add: update_graph_def py_not_def sample_period_start sample_period_end sample_url
        sample_history_table getitem_def aapl_figure_def common_layout_def price_figure_def
        update_layout_def Figure_def no_kwargs_def override_def)

subsection \<open>The data branch, call by call\<close>

lemma update_graph_period_error:
  assumes "s \<noteq> []" "a \<noteq> []" "b \<noteq> []"
  shows "period E a = Inl e \<Longrightarrow> update_graph E (Some s) (Some a) (Some b) tr = (Inl e, tr)"
    and "period E a = Inr p1 \<Longrightarrow> period E b = Inl e \<Longrightarrow>
           update_graph E (Some s) (Some a) (Some b) tr = (Inl e, tr)"
  using assms by (simp_all add: update_graph_def py_not_def)

lemma update_graph_fetch:
  assumes "s \<noteq> []" "a \<noteq> []" "b \<noteq> []"
    and "period E a = Inr p1" "period E b = Inr p2"
  shows "update_graph E (Some s) (Some a) (Some b) tr =
     (let rq = \<lparr>req_url = url_history s p1 p2, req_headers = headers, req_timeout = None\<rparr> in
      case http_get E (length tr) rq of
        Inl e \<Rightarrow> (Inl e, tr @ [HttpGet rq])
      | Inr page \<Rightarrow>
          (let tr2 = tr @ [HttpGet rq, ReadHtml page] in
           case read_html E page of
             Inl e \<Rightarrow> (Inl e, tr2)
           | Inr [] \<Rightarrow> (Inl IndexError, tr2)
           | Inr (raw # rest) \<Rightarrow>
               if length raw \<noteq> 7 then (Inl ValueError, tr2)
               else (case to_datetime E (snd (hd raw)) of
                       Inl e \<Rightarrow> (Inl e, tr2)
                     | Inr parsed \<Rightarrow>
                         (Inr (common_layout
                                 (price_figure s parsed
                                    (map (to_numeric_coerce E) (snd (raw ! 5))))),
                          tr2))))"
proof (cases "history_table E (url_history s p1 p2) tr")
  case (Pair r tr2)
  show ?thesis
  proof (cases r)
    case (Inl e)
    with Pair assms have "update_graph E (Some s) (Some a) (Some b) tr = (Inl e, tr2)"
      by (simp add: update_graph_def py_not_def)
    moreover from Pair Inl have
      "(let rq = \<lparr>req_url = url_history s p1 p2, req_headers = headers, req_timeout = None\<rparr> in
        case http_get E (length tr) rq of
          Inl e \<Rightarrow> (Inl e, tr @ [HttpGet rq])
        | Inr page \<Rightarrow>
            (let tr2 = tr @ [HttpGet rq, ReadHtml page] in
             case read_html E page of
               Inl e \<Rightarrow> (Inl e, tr2)
             | Inr [] \<Rightarrow> (Inl IndexError, tr2)
             | Inr (raw # rest) \<Rightarrow>
                 if length raw \<noteq> 7 then (Inl ValueError, tr2)
                 else (case to_datetime E (snd (hd raw)) of
                         Inl e \<Rightarrow> (Inl e, tr2)
                       | Inr parsed \<Rightarrow>
                           (Inr (common_layout
                                   (price_figure s parsed
                                      (map (to_numeric_coerce E) (snd (raw ! 5))))),
                            tr2)))) = (Inl e, tr2)"
      unfolding history_table_eq Let_def
      by (auto split: sum.splits list.splits if_splits)
    ultimately show ?thesis by simp
  next
    case (Inr data)
    with Pair have ht: "history_table E (url_history s p1 p2) tr = (Inr data, tr2)"
      by simp
    from history_table_Inr [OF ht] obtain page raw rest parsed where
      h: "http_get E (length tr)
            \<lparr>req_url = url_history s p1 p2, req_headers = headers, req_timeout = None\<rparr>
           = Inr page"
         "read_html E page = Inr (raw # rest)" "length raw = 7"
         "to_datetime E (snd (hd raw)) = Inr parsed"
         "data = zip history_columns (parsed # map (map (to_numeric_coerce E)) (map snd (tl raw)))"
         "tr2 = tr @ [HttpGet \<lparr>req_url = url_history s p1 p2, req_headers = headers,
                               req_timeout = None\<rparr>, ReadHtml page]"
      by blast
    from h(3) have len: "length (map (map (to_numeric_coerce E)) (map snd (tl raw))) = 6"
      by simp
    from h(3) have nth: "map (map (to_numeric_coerce E)) (map snd (tl raw)) ! 4
        = map (to_numeric_coerce E) (snd (raw ! 5))"
      by (simp add: nth_tl)
    have date: "getitem data ''Date'' = Inr parsed"
      unfolding h(5) by (rule history_frame_getitem(1))
    have adj: "getitem data ''Adj Close'' = Inr (map (to_numeric_coerce E) (snd (raw ! 5)))"
      unfolding h(5) using history_frame_getitem(2) [OF len, of parsed] nth by simp
    from assms ht date adj have
      "update_graph E (Some s) (Some a) (Some b) tr
         = (Inr (common_layout
                   (price_figure s parsed (map (to_numeric_coerce E) (snd (raw ! 5))))), tr2)"
      by (simp add: update_graph_def py_not_def)
    with h(1-4,6) show ?thesis
      by (simp add: Let_def)
  qed
qed

subsection \<open>Traces\<close>

lemma gets_to_append: "gets_to u (xs @ ys) = gets_to u xs @ gets_to u ys"
  by (induction u xs rule: gets_to.induct) simp_all

lemma http_gets_append: "http_gets (xs @ ys) = http_gets xs @ http_gets ys"
  by (induction xs rule: http_gets.induct) simp_all

lemma url_history_not_stocks: "url_history s p1 p2 \<noteq> url_stocks"
  by (simp add: url_history_def url_stocks_def)

text \<open>What one call of \<open>update_graph\<close> adds to the trace: nothing, one request for a
  history page, or that request and the parse of its answer.\<close>

lemma update_graph_new_calls:
  "\<exists>new. snd (update_graph E symbol start_date end_date tr) = tr @ new
         \<and> (new = []
              \<or> (\<exists>s p1 p2 rest. symbol = Some s
                    \<and> new = HttpGet \<lparr>req_url = url_history s p1 p2, req_headers = headers,
                                      req_timeout = None\<rparr> # rest
                    \<and> (rest = [] \<or> (\<exists>page. rest = [ReadHtml page]))))"
proof (cases "py_not symbol \<or> py_not start_date \<or> py_not end_date")
  case True
  then show ?thesis
    by (simp add: update_graph_guard)
next
  case False
  then obtain s a b where args: "symbol = Some s" "start_date = Some a" "end_date = Some b"
    and ne: "s \<noteq> []" "a \<noteq> []" "b \<noteq> []"
    by (auto simp: py_not_False)
  show ?thesis
  proof (cases "period E a")
    case (Inl e)
    with ne args show ?thesis
      by (simp add: update_graph_period_error)
  next
    case (Inr p1)
    note p1 = this
    show ?thesis
    proof (cases "period E b")
      case (Inl e)
      with ne args p1 show ?thesis
        by (simp add: update_graph_period_error)
    next
      case (Inr p2)
      show ?thesis
        unfolding args update_graph_fetch [OF ne p1 Inr] Let_def
        by (auto split: sum.splits list.splits)
    qed
  qed
qed

lemma update_graph_keeps_stocks_requests:
  "gets_to url_stocks (snd (update_graph E symbol start_date end_date tr))
     = gets_to url_stocks tr"
proof -
  from update_graph_new_calls [of E symbol start_date end_date tr] obtain new where
    new: "snd (update_graph E symbol start_date end_date tr) = tr @ new"
      "new = []
       \<or> (\<exists>s p1 p2 rest. symbol = Some s
             \<and> new = HttpGet \<lparr>req_url = url_history s p1 p2, req_headers = headers,
                               req_timeout = None\<rparr> # rest
             \<and> (rest = [] \<or> (\<exists>page. rest = [ReadHtml page])))"
    by blast
  from new(2) have "gets_to url_stocks new = []"
    by (auto simp: url_history_not_stocks)
  with new(1) show ?thesis
    by (simp add: gets_to_append)
qed

lemma serve_appends:
  "\<exists>new. serve E evs tr = tr @ new \<and> gets_to url_stocks new = []"
proof (induction evs arbitrary: tr)
  case Nil
  show ?case by simp
next
  case (Cons ev evs)
  obtain symbol start_date end_date where ev: "ev = (symbol, start_date, end_date)"
    by (cases ev)
  let ?tr1 = "snd (update_graph E symbol start_date end_date tr)"
  from update_graph_new_calls [of E symbol start_date end_date tr] obtain new1 where
    n1: "?tr1 = tr @ new1"
    by blast
  from update_graph_keeps_stocks_requests [of E symbol start_date end_date tr] n1
  have g1: "gets_to url_stocks new1 = []"
    by (simp add: gets_to_append)
  from Cons.IH [of ?tr1] obtain new2 where
    n2: "serve E evs ?tr1 = ?tr1 @ new2" "gets_to url_stocks new2 = []"
    by blast
  from n1 n2 g1 have "serve E (ev # evs) tr = tr @ (new1 @ new2)
      \<and> gets_to url_stocks (new1 @ new2) = []"
    by (simp add: ev gets_to_append)
  then show ?case by blast
qed

lemma startup_trace:
  "\<exists>rest. snd (startup E tr)
            = tr @ HttpGet \<lparr>req_url = url_stocks, req_headers = headers, req_timeout = None\<rparr> # rest
          \<and> gets_to url_stocks rest = []"
  by (auto simp: startup_def requests_get_def pd_read_html_def Let_def
      split: sum.splits prod.splits)

text \<open>An interaction does not look at what earlier calls did: with the same answer
  from the network it returns the same result and makes the same new calls.\<close>

lemma update_graph_history_free:
  assumes "http_get E (length tr2) = http_get E (length tr1)"
  shows "fst (update_graph E symbol start_date end_date tr2)
           = fst (update_graph E symbol start_date end_date tr1)
         \<and> (\<exists>new. snd (update_graph E symbol start_date end_date tr1) = tr1 @ new
                 \<and> snd (update_graph E symbol start_date end_date tr2) = tr2 @ new)"
proof (cases "py_not symbol \<or> py_not start_date \<or> py_not end_date")
  case True
  then show ?thesis
    by (simp add: update_graph_guard)
next
  case False
  then obtain s a b where args: "symbol = Some s" "start_date = Some a" "end_date = Some b"
    and ne: "s \<noteq> []" "a \<noteq> []" "b \<noteq> []"
    by (auto simp: py_not_False)
  show ?thesis
  proof (cases "period E a")
    case (Inl e)
    with ne args show ?thesis
      by (simp add: update_graph_period_error)
  next
    case (Inr p1)
    note p1 = this
    show ?thesis
    proof (cases "period E b")
      case (Inl e)
      with ne args p1 show ?thesis
        by (simp add: update_graph_period_error)
    next
      case (Inr p2)
      show ?thesis
        unfolding args update_graph_fetch [OF ne p1 Inr] Let_def assms
        by (auto split: sum.splits list.splits)
    qed
  qed
qed

subsection \<open>The sample application run\<close>

lemma sample_update_graph_up:
  assumes "length tr < 6"
  shows "update_graph sample_env (Some ''AAPL'') (Some ''2020-01-01'') (Some ''2020-01-03'') tr
           = (Inr aapl_figure, tr @ [HttpGet aapl_request, ReadHtml ''<history page>''])"
proof -
  have "''AAPL'' \<noteq> []" "''2020-01-01'' \<noteq> []" "''2020-01-03'' \<noteq> []"
    by simp_all
  note eq = update_graph_fetch [OF this sample_period_start sample_period_end, of tr]
  from assms show ?thesis
    unfolding eq sample_url
    by (simp add: aapl_request_def sample_env_def sample_http_get_def sample_read_html_def
          url_stocks_def sample_history_def sample_to_datetime_def to_numeric_coerce_def
          sample_to_numeric_def aapl_figure_def common_layout_def price_figure_def
          update_layout_def Figure_def no_kwargs_def override_def)
qed

lemma sample_update_graph_down:
  assumes "6 \<le> length tr"
  shows "update_graph sample_env (Some ''AAPL'') (Some ''2020-01-01'') (Some ''2020-01-03'') tr
           = (Inl RequestException, tr @ [HttpGet aapl_request])"
proof -
  have "''AAPL'' \<noteq> []" "''2020-01-01'' \<noteq> []" "''2020-01-03'' \<noteq> []"
    by simp_all
  note eq = update_graph_fetch [OF this sample_period_start sample_period_end, of tr]
  from assms show ?thesis
    unfolding eq sample_url
    by (simp add: aapl_request_def sample_env_def sample_http_get_def)
qed

lemma sample_startup:
  "startup sample_env [] =
     (Inr [Str ''AAPL'', Str ''MSFT''], [HttpGet stocks_request, ReadHtml ''<stocks page>''])"
  by (simp add: startup_def requests_get_def pd_read_html_def stocks_request_def sample_env_def
        sample_http_get_def sample_read_html_def first_table_def getitem_def sample_stocks_def)

lemma sample_run_app:
  "run_app sample_env [sample_inputs, sample_inputs] =
     (Inr [Str ''AAPL'', Str ''MSFT''],
      [HttpGet stocks_request, ReadHtml ''<stocks page>'',
       HttpGet aapl_request, ReadHtml ''<history page>'',
       HttpGet aapl_request, ReadHtml ''<history page>''])"
  by (simp add: run_app_def sample_startup sample_inputs_def sample_update_graph_up)

subsection \<open>Sample runs that fail\<close>

lemma sample_url_of:
  "url_history s 1577836800 1578009600
     = ''https://finance.yahoo.com/quote/'' @ s @ ''/history/?period1=1577836800&period2=1578009600''"
  by (simp add: url_history_def str_int_def str_nat.simps digit_char_def)

lemma sample_fetch:
  assumes "s \<noteq> []"
  shows "update_graph sample_env (Some s) (Some ''2020-01-01'') (Some ''2020-01-03'') [] =
     (let rq = \<lparr>req_url = ''https://finance.yahoo.com/quote/'' @ s
                   @ ''/history/?period1=1577836800&period2=1578009600'',
                 req_headers = headers, req_timeout = None\<rparr> in
      case http_get sample_env 0 rq of
        Inl e \<Rightarrow> (Inl e, [HttpGet rq])
      | Inr page \<Rightarrow>
          (case read_html sample_env page of
             Inl e \<Rightarrow> (Inl e, [HttpGet rq, ReadHtml page])
           | Inr [] \<Rightarrow> (Inl IndexError, [HttpGet rq, ReadHtml page])
           | Inr (raw # rest) \<Rightarrow>
               if length raw \<noteq> 7 then (Inl ValueError, [HttpGet rq, ReadHtml page])
               else (case to_datetime sample_env (snd (hd raw)) of
                       Inl e \<Rightarrow> (Inl e, [HttpGet rq, ReadHtml page])
                     | Inr parsed \<Rightarrow>
                         (Inr (common_layout
                                 (price_figure s parsed
                                    (map (to_numeric_coerce sample_env) (snd (raw ! 5))))),
                          [HttpGet rq, ReadHtml page]))))"
proof -
  have "''2020-01-01'' \<noteq> []" "''2020-01-03'' \<noteq> []"
    by simp_all
  note eq = update_graph_fetch [OF assms this sample_period_start sample_period_end, of "[]"]
  show ?thesis
    unfolding eq sample_url_of Let_def
    by (simp split: sum.splits list.splits)
qed

lemma sample_get_fails:
  "update_graph sample_env (Some ''NOPE'') (Some ''2020-01-01'') (Some ''2020-01-03'') []
     = (Inl RequestException,
        [HttpGet \<lparr>req_url = ''https://finance.yahoo.com/quote/NOPE/history/?period1=1577836800&period2=1578009600'',
                   req_headers = headers, req_timeout = None\<rparr>])"
  by (simp add: sample_fetch) (simp add: sample_env_def sample_http_get_def url_stocks_def)

lemma sample_no_tables:
  "update_graph sample_env (Some ''IBM'') (Some ''2020-01-01'') (Some ''2020-01-03'') []
     = (Inl ValueError,
        [HttpGet \<lparr>req_url = ''https://finance.yahoo.com/quote/IBM/history/?period1=1577836800&period2=1578009600'',
                   req_headers = headers, req_timeout = None\<rparr>,
         ReadHtml ''<no tables>''])"
  by (simp add: sample_fetch)
     (simp add: sample_env_def sample_http_get_def sample_read_html_def url_stocks_def)

lemma sample_empty_list:
  "update_graph sample_env (Some ''AMZN'') (Some ''2020-01-01'') (Some ''2020-01-03'') []
     = (Inl IndexError,
        [HttpGet \<lparr>req_url = ''https://finance.yahoo.com/quote/AMZN/history/?period1=1577836800&period2=1578009600'',
                   req_headers = headers, req_timeout = None\<rparr>,
         ReadHtml ''<blank page>''])"
  by (simp add: sample_fetch)
     (simp add: sample_env_def sample_http_get_def sample_read_html_def url_stocks_def)

lemma sample_six_columns:
  "update_graph sample_env (Some ''TSLA'') (Some ''2020-01-01'') (Some ''2020-01-03'') []
     = (Inl ValueError,
        [HttpGet \<lparr>req_url = ''https://finance.yahoo.com/quote/TSLA/history/?period1=1577836800&period2=1578009600'',
                   req_headers = headers, req_timeout = None\<rparr>,
         ReadHtml ''<short page>''])"
  by (simp add: sample_fetch)
     (simp add: sample_env_def sample_http_get_def sample_read_html_def url_stocks_def
        sample_short_def sample_history_def)

lemma sample_footnote:
  "update_graph sample_env (Some ''GOOG'') (Some ''2020-01-01'') (Some ''2020-01-03'') []
     = (Inl ValueError,
        [HttpGet \<lparr>req_url = ''https://finance.yahoo.com/quote/GOOG/history/?period1=1577836800&period2=1578009600'',
                   req_headers = headers, req_timeout = None\<rparr>,
         ReadHtml ''<footer page>''])"
  by (simp add: sample_fetch)
     (simp add: sample_env_def sample_http_get_def sample_read_html_def url_stocks_def
        sample_footer_def sample_to_datetime_def)

lemma sample_reordered_run:
  "update_graph sample_env (Some ''MSFT'') (Some ''2020-01-01'') (Some ''2020-01-03'') []
     = (Inr msft_figure, [HttpGet msft_request, ReadHtml ''<reordered page>''])"
  by (simp add: sample_fetch)
     (simp add: sample_env_def sample_http_get_def sample_read_html_def url_stocks_def
        sample_reordered_def sample_to_datetime_def to_numeric_coerce_def sample_to_numeric_def
        msft_figure_def msft_request_def common_layout_def price_figure_def update_layout_def
        Figure_def no_kwargs_def override_def)

section \<open>The claims\<close>

text \<open>
  C1. For every non-empty symbol and every non-empty start and end date string, the
  figure returned by \<open>update_graph\<close> has the title "Stock Prices: <symbol>", where
  <symbol> is the selected symbol.
\<close>

theorem update_graph_title:
  assumes "symbol \<noteq> []" and "start_date \<noteq> []" and "end_date \<noteq> []"
    and "update_graph E (Some symbol) (Some start_date) (Some end_date) tr = (Inr fig, tr')"
  shows "title_text (fig_layout fig) = Some (''Stock Prices: '' @ symbol)"
proof -
  from update_graph_Inr [OF assms] obtain xs ys where
    "fig = common_layout (price_figure symbol xs ys)"
    by blast
  then show ?thesis
    by (simp add: common_layout_fields price_figure_fields)
qed

theorem update_graph_title_witness:
  "''AAPL'' \<noteq> [] \<and> ''2020-01-01'' \<noteq> [] \<and> ''2020-01-03'' \<noteq> []
   \<and> update_graph sample_env (Some ''AAPL'') (Some ''2020-01-01'') (Some ''2020-01-03'') []
       = (Inr aapl_figure, [HttpGet aapl_request, ReadHtml ''<history page>''])
   \<and> title_text (fig_layout aapl_figure) = Some (''Stock Prices: '' @ ''AAPL'')"
  using update_graph_title [OF _ _ _ sample_update_graph] sample_update_graph
  by simp

text \<open>
  C2. For every non-empty symbol, start date and end date, the price-history table built
  inside \<open>update_graph\<close> has exactly the seven columns Date, Open, High, Low, Close,
  Adj Close, Volume, and every column other than Date is coerced to numeric, with invalid
  cells silently turned into the missing value NaN: each of its cells is the strict
  conversion of the scraped cell, or NaN where that conversion is invalid.
\<close>

theorem update_graph_table:
  assumes "symbol \<noteq> []" and "start_date \<noteq> []" and "end_date \<noteq> []"
    and "update_graph E (Some symbol) (Some start_date) (Some end_date) tr = (Inr fig, tr')"
  shows "\<exists>p1 p2 page raw rest data.
           period E start_date = Inr p1 \<and> period E end_date = Inr p2
           \<and> http_get E (length tr)
                \<lparr>req_url = url_history symbol p1 p2, req_headers = headers, req_timeout = None\<rparr>
               = Inr page
           \<and> read_html E page = Inr (raw # rest)
           \<and> history_table E (url_history symbol p1 p2) tr = (Inr data, tr')
           \<and> map fst data
               = [''Date'', ''Open'', ''High'', ''Low'', ''Close'', ''Adj Close'', ''Volume'']
           \<and> map snd (tl data)
               = map (\<lambda>col. map (\<lambda>c. case to_numeric E c of None \<Rightarrow> nan E | Some v \<Rightarrow> v) (snd col))
                   (tl raw)"
proof -
  from update_graph_Inr [OF assms] obtain p1 p2 page raw rest parsed where
    h: "period E start_date = Inr p1" "period E end_date = Inr p2"
       "http_get E (length tr)
          \<lparr>req_url = url_history symbol p1 p2, req_headers = headers, req_timeout = None\<rparr>
         = Inr page"
       "read_html E page = Inr (raw # rest)" "length raw = 7"
       "history_table E (url_history symbol p1 p2) tr
         = (Inr (zip history_columns
                   (parsed # map (map (to_numeric_coerce E)) (map snd (tl raw)))), tr')"
    by blast
  let ?cs = "map (map (to_numeric_coerce E)) (map snd (tl raw))"
  let ?data = "zip history_columns (parsed # ?cs)"
  from h(5) have len: "length (parsed # ?cs) = length history_columns"
    by (simp add: length_history_columns)
  have labels: "map fst ?data
      = [''Date'', ''Open'', ''High'', ''Low'', ''Close'', ''Adj Close'', ''Volume'']"
    using len by (simp add: history_columns_def)
  have ms: "map snd ?data = parsed # ?cs"
    using len by (simp only: map_snd_zip)
  have "map snd (tl ?data) = tl (map snd ?data)"
    by (rule map_tl)
  also have "\<dots> = tl (parsed # ?cs)"
    by (simp only: ms)
  also have "\<dots> = ?cs"
    by (simp only: list.sel)
  finally have "map snd (tl ?data) = ?cs" .
  moreover have "to_numeric_coerce E = (\<lambda>c. case to_numeric E c of None \<Rightarrow> nan E | Some v \<Rightarrow> v)"
    by (rule ext) (simp add: to_numeric_coerce_def)
  ultimately have cells: "map snd (tl ?data)
      = map (\<lambda>col. map (\<lambda>c. case to_numeric E c of None \<Rightarrow> nan E | Some v \<Rightarrow> v) (snd col))
          (tl raw)"
    by simp
  from h(1-4,6) labels cells show ?thesis
    by (intro exI conjI) assumption+
qed

theorem update_graph_table_witness:
  "''AAPL'' \<noteq> [] \<and> ''2020-01-01'' \<noteq> [] \<and> ''2020-01-03'' \<noteq> []
   \<and> update_graph sample_env (Some ''AAPL'') (Some ''2020-01-01'') (Some ''2020-01-03'') []
       = (Inr aapl_figure, [HttpGet aapl_request, ReadHtml ''<history page>''])
   \<and> history_table sample_env (url_history ''AAPL'' 1577836800 1578009600) []
       = (Inr [(''Date'', [Stamp ''Jan 3, 2020'', Stamp ''Jan 2, 2020'']),
               (''Open'', [Num 7429, Num 7406]),
               (''High'', [Num 7514, Num 7515]),
               (''Low'', [Num 7413, Num 7380]),
               (''Close'', [Num 7436, Num 7509]),
               (''Adj Close'', [NaN, Num 7288]),
               (''Volume'', [Num 146322800, NaN])],
          [HttpGet aapl_request, ReadHtml ''<history page>''])
   \<and> (\<exists>data. fst (history_table sample_env (url_history ''AAPL'' 1577836800 1578009600) [])
                 = Inr data
               \<and> map fst data
                   = [''Date'', ''Open'', ''High'', ''Low'', ''Close'', ''Adj Close'', ''Volume''])"
  using update_graph_table [OF _ _ _ sample_update_graph] sample_update_graph
    sample_history_table
  by (simp add: sample_url)

text \<open>
  C3 (as amended). The price-history table is recomputed from scratch on every user
  interaction that reaches the fetch: such an interaction issues its own request for the
  history page, and what it returns does not depend on what earlier interactions did,
  so no table is kept between interactions. The ticker list is not recomputed on
  interactions: its value is the one computed at module start, and no interaction
  requests the ticker-list page.
\<close>

theorem interactions_recompute_history_only:
  "fst (run_app E evs) = fst (startup E [])
   \<and> gets_to url_stocks (snd (update_graph E symbol start_date end_date tr))
       = gets_to url_stocks tr
   \<and> (s \<noteq> [] \<and> a \<noteq> [] \<and> b \<noteq> [] \<and> period E a = Inr p1 \<and> period E b = Inr p2 \<longrightarrow>
        (\<exists>rest. snd (update_graph E (Some s) (Some a) (Some b) tr)
           = tr @ HttpGet \<lparr>req_url = url_history s p1 p2, req_headers = headers,
                            req_timeout = None\<rparr> # rest))
   \<and> (http_get E (length tr2) = http_get E (length tr) \<longrightarrow>
        fst (update_graph E symbol start_date end_date tr2)
          = fst (update_graph E symbol start_date end_date tr))"
proof -
  have stocks: "fst (run_app E evs) = fst (startup E [])"
    by (simp add: run_app_def split: prod.splits sum.splits)
  have fetch: "\<exists>rest. snd (update_graph E (Some s) (Some a) (Some b) tr)
           = tr @ HttpGet \<lparr>req_url = url_history s p1 p2, req_headers = headers,
                            req_timeout = None\<rparr> # rest"
    if "s \<noteq> []" "a \<noteq> []" "b \<noteq> []" "period E a = Inr p1" "period E b = Inr p2"
    unfolding update_graph_fetch [OF that] Let_def
    by (auto split: sum.splits list.splits)
  from stocks fetch update_graph_keeps_stocks_requests [of E symbol start_date end_date tr]
    update_graph_history_free [of E tr2 tr symbol start_date end_date]
  show ?thesis
    by simp
qed

theorem interactions_recompute_history_only_witness:
  "fst (run_app sample_env [sample_inputs, sample_inputs]) = Inr [Str ''AAPL'', Str ''MSFT'']
   \<and> fst (startup sample_env []) = Inr [Str ''AAPL'', Str ''MSFT'']
   \<and> period sample_env ''2020-01-01'' = Inr 1577836800
   \<and> period sample_env ''2020-01-03'' = Inr 1578009600
   \<and> snd (update_graph sample_env (Some ''AAPL'') (Some ''2020-01-01'') (Some ''2020-01-03'')
            [HttpGet stocks_request, ReadHtml ''<stocks page>''])
       = [HttpGet stocks_request, ReadHtml ''<stocks page>''] @
           HttpGet aapl_request # [ReadHtml ''<history page>'']
   \<and> http_get sample_env (length [HttpGet stocks_request, ReadHtml ''<stocks page>''])
       = http_get sample_env (length ([] :: call list))
   \<and> fst (update_graph sample_env (Some ''AAPL'') (Some ''2020-01-01'') (Some ''2020-01-03'')
            [HttpGet stocks_request, ReadHtml ''<stocks page>''])
       = fst (update_graph sample_env (Some ''AAPL'') (Some ''2020-01-01'') (Some ''2020-01-03'') [])"
proof -
  have net: "http_get sample_env (length [HttpGet stocks_request, ReadHtml ''<stocks page>''])
      = http_get sample_env (length ([] :: call list))"
    by (rule ext) (simp add: sample_env_def sample_http_get_def)
  from interactions_recompute_history_only
    [of sample_env "[sample_inputs, sample_inputs]" "Some ''AAPL''" "Some ''2020-01-01''"
       "Some ''2020-01-03''" "[]" "''AAPL''" "''2020-01-01''" "''2020-01-03''"
       1577836800 1578009600 "[HttpGet stocks_request, ReadHtml ''<stocks page>'']"]
    net sample_run_app sample_startup sample_period_start sample_period_end
  show ?thesis
    by (simp add: sample_update_graph_up)
qed

text \<open>The claim as stated fails for the ticker list: in a run with two interactions the
  ticker-list page is requested once, before both, and an interaction by itself
  requests only the history page.\<close>

theorem ticker_list_not_recomputed:
  "run_app sample_env [sample_inputs, sample_inputs] =
     (Inr [Str ''AAPL'', Str ''MSFT''],
      [HttpGet stocks_request, ReadHtml ''<stocks page>'',
       HttpGet aapl_request, ReadHtml ''<history page>'',
       HttpGet aapl_request, ReadHtml ''<history page>''])
   \<and> gets_to url_stocks (snd (run_app sample_env [sample_inputs, sample_inputs]))
       = [stocks_request]
   \<and> gets_to url_stocks
        (snd (update_graph sample_env (Some ''AAPL'') (Some ''2020-01-01'') (Some ''2020-01-03'') []))
       = []"
  by (simp add: sample_run_app sample_update_graph stocks_request_def aapl_request_def
        url_stocks_def)

text \<open>
  C4. The ticker list is fetched exactly once, at process start, and is never refetched
  afterwards: no execution of \<open>update_graph\<close> or any other operation issues a second
  request for the ticker-list page. In every run the trace begins with the request for
  the ticker-list page and holds no other request for it.
\<close>

theorem ticker_list_fetched_once:
  "\<exists>rest. snd (run_app E evs)
            = HttpGet \<lparr>req_url = url_stocks, req_headers = headers, req_timeout = None\<rparr> # rest
          \<and> gets_to url_stocks rest = []
          \<and> length (gets_to url_stocks (snd (run_app E evs))) = 1"
proof -
  from startup_trace [of E "[]"] obtain rest1 where
    st: "snd (startup E [])
           = HttpGet \<lparr>req_url = url_stocks, req_headers = headers, req_timeout = None\<rparr> # rest1"
      "gets_to url_stocks rest1 = []"
    by auto
  show ?thesis
  proof (cases "startup E []")
    case (Pair r tr)
    show ?thesis
    proof (cases r)
      case (Inl e)
      with Pair st show ?thesis
        by (simp add: run_app_def)
    next
      case (Inr stocks)
      from serve_appends [of E evs tr] obtain new where
        new: "serve E evs tr = tr @ new" "gets_to url_stocks new = []"
        by blast
      from Pair Inr new st show ?thesis
        by (simp add: run_app_def gets_to_append)
    qed
  qed
qed

theorem ticker_list_fetched_once_witness:
  "snd (run_app sample_env [sample_inputs, sample_inputs])
     = HttpGet stocks_request #
         [ReadHtml ''<stocks page>'', HttpGet aapl_request, ReadHtml ''<history page>'',
          HttpGet aapl_request, ReadHtml ''<history page>'']
   \<and> length (gets_to url_stocks (snd (run_app sample_env [sample_inputs, sample_inputs]))) = 1"
  using ticker_list_fetched_once [of sample_env "[sample_inputs, sample_inputs]"]
    sample_run_app
  by simp

text \<open>
  C5 (as amended). For every input change with non-empty symbol and dates whose two dates
  parse and convert to timestamps, \<open>update_graph\<close> issues exactly one HTTP GET, for the
  price-history page built from the symbol and the two timestamps, with no timeout
  argument. There is no caching and no deduplication: a second call with the same inputs
  issues the same request again, a failing fetch fails the call, and the result of a
  call is determined by the answer to its own request.
\<close>

theorem update_graph_one_get:
  assumes "symbol \<noteq> []" and "start_date \<noteq> []" and "end_date \<noteq> []"
    and "period E start_date = Inr p1" and "period E end_date = Inr p2"
  shows "http_gets (snd (update_graph E (Some symbol) (Some start_date) (Some end_date) tr))
           = http_gets tr @ [\<lparr>req_url = url_history symbol p1 p2, req_headers = headers,
                               req_timeout = None\<rparr>]
         \<and> http_gets (snd (update_graph E (Some symbol) (Some start_date) (Some end_date)
                        (snd (update_graph E (Some symbol) (Some start_date) (Some end_date) tr))))
           = http_gets tr @ [\<lparr>req_url = url_history symbol p1 p2, req_headers = headers,
                               req_timeout = None\<rparr>,
                             \<lparr>req_url = url_history symbol p1 p2, req_headers = headers,
                               req_timeout = None\<rparr>]
         \<and> (\<forall>e. http_get E (length tr)
                   \<lparr>req_url = url_history symbol p1 p2, req_headers = headers,
                      req_timeout = None\<rparr> = Inl e
                \<longrightarrow> fst (update_graph E (Some symbol) (Some start_date) (Some end_date) tr)
                      = Inl e)
         \<and> (\<forall>tr2. http_get E (length tr2)
                     \<lparr>req_url = url_history symbol p1 p2, req_headers = headers,
                        req_timeout = None\<rparr>
                   = http_get E (length tr)
                       \<lparr>req_url = url_history symbol p1 p2, req_headers = headers,
                          req_timeout = None\<rparr>
                \<longrightarrow> fst (update_graph E (Some symbol) (Some start_date) (Some end_date) tr2)
                      = fst (update_graph E (Some symbol) (Some start_date) (Some end_date) tr))"
proof -
  let ?rq = "\<lparr>req_url = url_history symbol p1 p2, req_headers = headers, req_timeout = None\<rparr>"
  note eq = update_graph_fetch [OF assms]
  have one: "http_gets (snd (update_graph E (Some symbol) (Some start_date) (Some end_date) t))
      = http_gets t @ [?rq]" for t
    unfolding eq Let_def
    by (auto simp: http_gets_append split: sum.splits list.splits)
  have two: "http_gets (snd (update_graph E (Some symbol) (Some start_date) (Some end_date)
                   (snd (update_graph E (Some symbol) (Some start_date) (Some end_date) tr))))
      = http_gets tr @ [?rq, ?rq]"
    by (simp only: one append_assoc append.simps)
  have fails: "fst (update_graph E (Some symbol) (Some start_date) (Some end_date) tr) = Inl e"
    if "http_get E (length tr) ?rq = Inl e" for e
    unfolding eq Let_def using that by simp
  have fresh: "fst (update_graph E (Some symbol) (Some start_date) (Some end_date) tr2)
      = fst (update_graph E (Some symbol) (Some start_date) (Some end_date) tr)"
    if "http_get E (length tr2) ?rq = http_get E (length tr) ?rq" for tr2
    unfolding eq Let_def that
    by (auto split: sum.splits list.splits)
  from one [of tr] two fails fresh show ?thesis
    by blast
qed

theorem update_graph_one_get_witness:
  "''AAPL'' \<noteq> [] \<and> ''2020-01-01'' \<noteq> [] \<and> ''2020-01-03'' \<noteq> []
   \<and> period sample_env ''2020-01-01'' = Inr 1577836800
   \<and> period sample_env ''2020-01-03'' = Inr 1578009600
   \<and> http_gets (snd (update_graph sample_env (Some ''AAPL'') (Some ''2020-01-01'')
                      (Some ''2020-01-03'') []))
       = [aapl_request]
   \<and> http_gets (snd (update_graph sample_env (Some ''AAPL'') (Some ''2020-01-01'')
                      (Some ''2020-01-03'')
                      (snd (update_graph sample_env (Some ''AAPL'') (Some ''2020-01-01'')
                              (Some ''2020-01-03'') []))))
       = [aapl_request, aapl_request]
   \<and> http_get sample_env (length (replicate 6 (HttpGet aapl_request))) aapl_request
       = Inl RequestException
   \<and> fst (update_graph sample_env (Some ''AAPL'') (Some ''2020-01-01'') (Some ''2020-01-03'')
            (replicate 6 (HttpGet aapl_request)))
       = Inl RequestException
   \<and> http_get sample_env (length [HttpGet stocks_request, ReadHtml ''<stocks page>''])
         aapl_request
       = http_get sample_env (length ([] :: call list)) aapl_request
   \<and> fst (update_graph sample_env (Some ''AAPL'') (Some ''2020-01-01'') (Some ''2020-01-03'')
            [HttpGet stocks_request, ReadHtml ''<stocks page>''])
       = fst (update_graph sample_env (Some ''AAPL'') (Some ''2020-01-01'') (Some ''2020-01-03'') [])
   \<and> fst (update_graph sample_env (Some ''AAPL'') (Some ''2020-01-01'') (Some ''2020-01-03'') [])
       = Inr aapl_figure"
proof -
  have same: "http_get sample_env (length [HttpGet stocks_request, ReadHtml ''<stocks page>''])
        aapl_request
      = http_get sample_env (length ([] :: call list)) aapl_request"
    by (simp add: sample_env_def sample_http_get_def)
  have ne: "''AAPL'' \<noteq> []" "''2020-01-01'' \<noteq> []" "''2020-01-03'' \<noteq> []"
    by simp_all
  have down: "http_get sample_env (length (replicate 6 (HttpGet aapl_request))) aapl_request
      = Inl RequestException"
    by (simp add: sample_env_def sample_http_get_def)
  have rq: "\<lparr>req_url = url_history ''AAPL'' 1577836800 1578009600, req_headers = headers,
             req_timeout = None\<rparr> = aapl_request"
    by (simp add: sample_url) (simp add: aapl_request_def)
  from update_graph_one_get [OF ne sample_period_start sample_period_end, of "[]"]
    update_graph_one_get [OF ne sample_period_start sample_period_end,
      of "replicate 6 (HttpGet aapl_request)"]
    down same sample_period_start sample_period_end sample_update_graph
  show ?thesis
    unfolding rq by (simp add: sample_update_graph_up)
qed

text \<open>The claim as stated fails for a non-empty date that does not parse: the callback
  raises ValueError and issues no request at all.\<close>

theorem unparsed_date_issues_no_get:
  "\<not> py_not (Some ''AAPL'') \<and> \<not> py_not (Some ''01/02/2020'') \<and> \<not> py_not (Some ''2020-01-03'')
   \<and> update_graph sample_env (Some ''AAPL'') (Some ''01/02/2020'') (Some ''2020-01-03'') []
       = (Inl ValueError, [])
   \<and> http_gets (snd (update_graph sample_env (Some ''AAPL'') (Some ''01/02/2020'')
                      (Some ''2020-01-03'') []))
       = []"
  by (simp add: py_not_def update_graph_def period_def sample_env_def sample_strptime_def)

text \<open>
  C6 (as amended). \<open>update_graph\<close> catches no exceptions: once the request is reached
  (non-empty inputs, both dates converted), if the HTTP GET fails, the fetched page
  contains no parseable table, or the first table does not have exactly seven columns,
  the error propagates out of \<open>update_graph\<close> unhandled and the request cycle produces
  no figure; so does a failure to parse the Date column. A first table with seven
  columns whose dates parse yields a figure whatever its headers are.
\<close>

theorem update_graph_errors_propagate:
  assumes "symbol \<noteq> []" and "start_date \<noteq> []" and "end_date \<noteq> []"
    and "period E start_date = Inr p1" and "period E end_date = Inr p2"
    and "rq = \<lparr>req_url = url_history symbol p1 p2, req_headers = headers, req_timeout = None\<rparr>"
    and "out = fst (update_graph E (Some symbol) (Some start_date) (Some end_date) tr)"
  shows "(\<forall>e. http_get E (length tr) rq = Inl e \<longrightarrow> out = Inl e)
         \<and> (\<forall>page e. http_get E (length tr) rq = Inr page \<and> read_html E page = Inl e
               \<longrightarrow> out = Inl e)
         \<and> (\<forall>page. http_get E (length tr) rq = Inr page \<and> read_html E page = Inr []
               \<longrightarrow> out = Inl IndexError)
         \<and> (\<forall>page raw rest. http_get E (length tr) rq = Inr page
                 \<and> read_html E page = Inr (raw # rest) \<and> length raw \<noteq> 7
               \<longrightarrow> out = Inl ValueError)
         \<and> (\<forall>page raw rest e. http_get E (length tr) rq = Inr page
                 \<and> read_html E page = Inr (raw # rest) \<and> length raw = 7
                 \<and> to_datetime E (snd (hd raw)) = Inl e
               \<longrightarrow> out = Inl e)
         \<and> (\<forall>page raw rest parsed. http_get E (length tr) rq = Inr page
                 \<and> read_html E page = Inr (raw # rest) \<and> length raw = 7
                 \<and> to_datetime E (snd (hd raw)) = Inr parsed
               \<longrightarrow> (\<exists>fig. out = Inr fig))"
  unfolding assms(6,7) update_graph_fetch [OF assms(1-5)] Let_def
  by simp

theorem update_graph_errors_propagate_witness:
  "fst (update_graph sample_env (Some ''NOPE'') (Some ''2020-01-01'') (Some ''2020-01-03'') [])
     = Inl RequestException
   \<and> fst (update_graph sample_env (Some ''IBM'') (Some ''2020-01-01'') (Some ''2020-01-03'') [])
     = Inl ValueError
   \<and> fst (update_graph sample_env (Some ''AMZN'') (Some ''2020-01-01'') (Some ''2020-01-03'') [])
     = Inl IndexError
   \<and> length sample_short \<noteq> 7
   \<and> fst (update_graph sample_env (Some ''TSLA'') (Some ''2020-01-01'') (Some ''2020-01-03'') [])
     = Inl ValueError
   \<and> length sample_footer = 7
   \<and> fst (update_graph sample_env (Some ''GOOG'') (Some ''2020-01-01'') (Some ''2020-01-03'') [])
     = Inl ValueError
   \<and> length sample_history = 7
   \<and> fst (update_graph sample_env (Some ''AAPL'') (Some ''2020-01-01'') (Some ''2020-01-03'') [])
     = Inr aapl_figure"
proof -
  have ne: "''2020-01-01'' \<noteq> []" "''2020-01-03'' \<noteq> []"
    by simp_all
  note inst = update_graph_errors_propagate [OF _ ne sample_period_start sample_period_end refl refl]
  have "''NOPE'' \<noteq> []" by simp
  note nope = inst [OF this, of "[]"]
  have "''IBM'' \<noteq> []" by simp
  note ibm = inst [OF this, of "[]"]
  have "''AMZN'' \<noteq> []" by simp
  note amzn = inst [OF this, of "[]"]
  have "''TSLA'' \<noteq> []" by simp
  note tsla = inst [OF this, of "[]"]
  have "''GOOG'' \<noteq> []" by simp
  note goog = inst [OF this, of "[]"]
  have "''AAPL'' \<noteq> []" by simp
  note aapl = inst [OF this, of "[]"]
  have lens: "length sample_short \<noteq> 7" "length sample_footer = 7" "length sample_history = 7"
    by (simp_all add: sample_short_def sample_footer_def sample_history_def)
  from nope ibm amzn tsla goog aapl lens show ?thesis
    by (simp add: sample_get_fails sample_no_tables sample_empty_list sample_six_columns
          sample_footnote sample_update_graph)
qed

text \<open>The claim as stated fails for a table whose layout differs from the expected one
  but still has seven columns: here the site lists Adj Close before Close, nothing is
  raised, and the chart is drawn from the sixth column, the site's Close.\<close>

theorem reordered_columns_raise_nothing:
  "http_get sample_env 0 msft_request = Inr ''<reordered page>''
   \<and> read_html sample_env ''<reordered page>'' = Inr [sample_reordered]
   \<and> map fst sample_reordered
       = [''Date'', ''Open'', ''High'', ''Low'', ''Adj Close'', ''Close'', ''Volume'']
   \<and> map fst sample_reordered \<noteq> history_columns
   \<and> update_graph sample_env (Some ''MSFT'') (Some ''2020-01-01'') (Some ''2020-01-03'') []
       = (Inr msft_figure, [HttpGet msft_request, ReadHtml ''<reordered page>''])
   \<and> map_of sample_reordered ''Close'' = Some [Num 15862, Num 16062]
   \<and> sc_y (hd (fig_data msft_figure)) = [Num 15862, Num 16062]"
  by (simp add: sample_reordered_run)
     (simp add: sample_env_def sample_http_get_def sample_read_html_def msft_request_def
        url_stocks_def sample_reordered_def history_columns_def msft_figure_def)

text \<open>
  C7 (as amended). For every non-empty symbol and date range, the figure returned by
  \<open>update_graph\<close> contains exactly one line trace. Its x values are the first column of
  the first scraped table after \<open>to_datetime\<close> and its y values are the sixth column of
  that table after the numeric coercion: the columns that line 103 labels Date and
  Adj Close by position, whatever the site's own headers are. The scraped table has seven
  columns.
\<close>

theorem update_graph_trace:
  assumes "symbol \<noteq> []" and "start_date \<noteq> []" and "end_date \<noteq> []"
    and "update_graph E (Some symbol) (Some start_date) (Some end_date) tr = (Inr fig, tr')"
  shows "\<exists>p1 p2 page raw rest data xs ys.
           period E start_date = Inr p1 \<and> period E end_date = Inr p2
           \<and> http_get E (length tr)
                \<lparr>req_url = url_history symbol p1 p2, req_headers = headers, req_timeout = None\<rparr>
               = Inr page
           \<and> read_html E page = Inr (raw # rest) \<and> length raw = 7
           \<and> history_table E (url_history symbol p1 p2) tr = (Inr data, tr')
           \<and> getitem data ''Date'' = Inr xs \<and> to_datetime E (snd (hd raw)) = Inr xs
           \<and> getitem data ''Adj Close'' = Inr ys \<and> ys = map (to_numeric_coerce E) (snd (raw ! 5))
           \<and> fig_data fig = [\<lparr>sc_x = xs, sc_y = ys, sc_mode = ''lines''\<rparr>]"
proof -
  from update_graph_Inr [OF assms] obtain p1 p2 page raw rest parsed where
    h: "period E start_date = Inr p1" "period E end_date = Inr p2"
       "http_get E (length tr)
          \<lparr>req_url = url_history symbol p1 p2, req_headers = headers, req_timeout = None\<rparr>
         = Inr page"
       "read_html E page = Inr (raw # rest)" "length raw = 7"
       "to_datetime E (snd (hd raw)) = Inr parsed"
       "history_table E (url_history symbol p1 p2) tr
         = (Inr (zip history_columns
                   (parsed # map (map (to_numeric_coerce E)) (map snd (tl raw)))), tr')"
       "fig = common_layout
                (price_figure symbol parsed (map (to_numeric_coerce E) (snd (raw ! 5))))"
    by blast
  let ?cs = "map (map (to_numeric_coerce E)) (map snd (tl raw))"
  let ?data = "zip history_columns (parsed # ?cs)"
  from h(5) have len: "length ?cs = 6"
    by simp
  from h(5) have nth: "?cs ! 4 = map (to_numeric_coerce E) (snd (raw ! 5))"
    by (simp add: nth_tl)
  have date: "getitem ?data ''Date'' = Inr parsed"
    by (rule history_frame_getitem(1))
  have adj: "getitem ?data ''Adj Close'' = Inr (map (to_numeric_coerce E) (snd (raw ! 5)))"
    using history_frame_getitem(2) [OF len, of parsed] nth by simp
  have "fig_data fig
      = [\<lparr>sc_x = parsed, sc_y = map (to_numeric_coerce E) (snd (raw ! 5)), sc_mode = ''lines''\<rparr>]"
    by (simp add: h(8) common_layout_fields price_figure_fields)
  with h(1-7) date adj show ?thesis
    by blast
qed

theorem update_graph_trace_witness:
  "''AAPL'' \<noteq> [] \<and> ''2020-01-01'' \<noteq> [] \<and> ''2020-01-03'' \<noteq> []
   \<and> update_graph sample_env (Some ''AAPL'') (Some ''2020-01-01'') (Some ''2020-01-03'') []
       = (Inr aapl_figure, [HttpGet aapl_request, ReadHtml ''<history page>''])
   \<and> fig_data aapl_figure
       = [\<lparr>sc_x = [Stamp ''Jan 3, 2020'', Stamp ''Jan 2, 2020''], sc_y = [NaN, Num 7288],
           sc_mode = ''lines''\<rparr>]
   \<and> (\<exists>xs ys. fig_data aapl_figure = [\<lparr>sc_x = xs, sc_y = ys, sc_mode = ''lines''\<rparr>])"
  using update_graph_trace [OF _ _ _ sample_update_graph] sample_update_graph
  by (simp add: aapl_figure_def)

text \<open>The claim as stated fails when the site's sixth column is not its Adj Close column:
  for the reordered table the chart's y values are the scraped Close column, and differ
  from the scraped Adj Close column.\<close>

theorem chart_plots_sixth_column:
  "http_get sample_env 0 msft_request = Inr ''<reordered page>''
   \<and> read_html sample_env ''<reordered page>'' = Inr [sample_reordered]
   \<and> map_of sample_reordered ''Adj Close'' = Some [Num 15230, Num 15422]
   \<and> map_of sample_reordered ''Close'' = Some [Num 15862, Num 16062]
   \<and> fst (update_graph sample_env (Some ''MSFT'') (Some ''2020-01-01'') (Some ''2020-01-03'') [])
       = Inr msft_figure
   \<and> fig_data msft_figure
       = [\<lparr>sc_x = [Stamp ''Jan 3, 2020'', Stamp ''Jan 2, 2020''],
           sc_y = [Num 15862, Num 16062], sc_mode = ''lines''\<rparr>]
   \<and> sc_y (hd (fig_data msft_figure)) \<noteq> [Num 15230, Num 15422]"
  by (simp add: sample_reordered_run)
     (simp add: sample_env_def sample_http_get_def sample_read_html_def msft_request_def
        url_stocks_def sample_reordered_def msft_figure_def)

text \<open>
  C8. If any of symbol, start date or end date is empty or \<open>None\<close>, \<open>update_graph\<close>
  returns the placeholder figure of \<open>empty_figure\<close> (one empty line trace, title
  "Loading Data...") and performs no HTTP request and no table parsing: the trace of
  calls is left as it was.
\<close>

theorem update_graph_placeholder:
  assumes "py_not symbol \<or> py_not start_date \<or> py_not end_date"
  shows "update_graph E symbol start_date end_date tr = (Inr empty_figure, tr)
         \<and> fig_data (empty_figure :: 'v figure) = [\<lparr>sc_x = [], sc_y = [], sc_mode = ''lines''\<rparr>]
         \<and> title_text (fig_layout (empty_figure :: 'v figure)) = Some ''Loading Data...''
         \<and> http_gets (snd (update_graph (E :: 'v env) symbol start_date end_date tr)) = http_gets tr
         \<and> parses (snd (update_graph E symbol start_date end_date tr)) = parses tr"
  using assms by (simp add: update_graph_guard empty_figure_value)

theorem update_graph_placeholder_witness:
  "py_not None
   \<and> update_graph sample_env None (Some ''2020-01-01'') (Some ''2020-01-03'') []
       = (Inr empty_figure, [])
   \<and> py_not (Some '''')
   \<and> update_graph sample_env (Some ''AAPL'') (Some '''') (Some ''2020-01-03'') [HttpGet aapl_request]
       = (Inr empty_figure, [HttpGet aapl_request])
   \<and> update_graph sample_env (Some ''AAPL'') (Some ''2020-01-01'') None []
       = (Inr empty_figure, [])"
  using update_graph_placeholder [of None "Some ''2020-01-01''" "Some ''2020-01-03''" sample_env "[]"]
    update_graph_placeholder [of "Some ''AAPL''" "Some ''''" "Some ''2020-01-03''" sample_env
      "[HttpGet aapl_request]"]
    update_graph_placeholder [of "Some ''AAPL''" "Some ''2020-01-01''" None sample_env "[]"]
  by (simp add: py_not_def)

text \<open>
  C9. Every figure returned by \<open>update_graph\<close>, on the placeholder branch and on the
  data branch, ends with the common layout applied last: centered title
  (\<open>title_x = 0.5\<close>), width 800, height 600 and template "plotly_white". On the
  placeholder branch the figure is \<open>common_layout\<close> of the figure built by lines 42-44,
  which sets no width or height. On the data branch it is \<open>common_layout\<close> of the figure
  built by lines 106-112 from the symbol and the chart's own x and y values, and that
  intermediate figure has width 600 and height 400, which the common layout overrides.
\<close>

theorem update_graph_common_layout:
  assumes "update_graph E symbol start_date end_date tr = (Inr fig, tr')"
  shows "title_x (fig_layout fig) = Some (1 / 2)
         \<and> width (fig_layout fig) = Some 800
         \<and> height (fig_layout fig) = Some 600
         \<and> template (fig_layout fig) = Some ''plotly_white''
         \<and> (py_not symbol \<or> py_not start_date \<or> py_not end_date \<longrightarrow>
               fig = common_layout
                       (update_layout (no_kwargs\<lparr>title_text := Some ''Loading Data...''\<rparr>)
                          (add_trace \<lparr>sc_x = [], sc_y = [], sc_mode = ''lines''\<rparr> (Figure [])))
               \<and> width (fig_layout
                     (update_layout (no_kwargs\<lparr>title_text := Some ''Loading Data...''\<rparr>)
                        (add_trace \<lparr>sc_x = [], sc_y = [], sc_mode = ''lines''\<rparr>
                           (Figure [] :: 'v figure)))) = None
               \<and> height (fig_layout
                     (update_layout (no_kwargs\<lparr>title_text := Some ''Loading Data...''\<rparr>)
                        (add_trace \<lparr>sc_x = [], sc_y = [], sc_mode = ''lines''\<rparr>
                           (Figure [] :: 'v figure)))) = None)
         \<and> (\<forall>s. symbol = Some s \<and> s \<noteq> [] \<and> \<not> py_not start_date \<and> \<not> py_not end_date \<longrightarrow>
               fig = common_layout
                       (price_figure s (sc_x (hd (fig_data fig))) (sc_y (hd (fig_data fig))))
               \<and> width (fig_layout
                     (price_figure s (sc_x (hd (fig_data fig))) (sc_y (hd (fig_data fig)))))
                   = Some 600
               \<and> height (fig_layout
                     (price_figure s (sc_x (hd (fig_data fig))) (sc_y (hd (fig_data (fig :: 'v figure))))))
                   = Some 400)"
proof -
  let ?fig0 = "update_layout (no_kwargs\<lparr>title_text := Some ''Loading Data...''\<rparr>)
                 (add_trace \<lparr>sc_x = [], sc_y = [], sc_mode = ''lines''\<rparr> (Figure [] :: 'v figure))"
  have placeholder: "fig = common_layout ?fig0"
    if "py_not symbol \<or> py_not start_date \<or> py_not end_date"
    using that assms by (simp add: update_graph_guard empty_figure_eq)
  have unset: "width (fig_layout ?fig0) = None" "height (fig_layout ?fig0) = None"
    by (simp_all add: update_layout_def add_trace_def Figure_def no_kwargs_def override_def)
  have chart: "fig = common_layout
        (price_figure s (sc_x (hd (fig_data fig))) (sc_y (hd (fig_data fig))))"
    if "symbol = Some s" "s \<noteq> []" "\<not> py_not start_date" "\<not> py_not end_date" for s
  proof -
    from that(3,4) obtain a b where args: "start_date = Some a" "end_date = Some b"
      and ne: "a \<noteq> []" "b \<noteq> []"
      by (auto simp: py_not_False)
    from update_graph_Inr [OF that(2) ne assms [unfolded that(1) args]] obtain xs ys where
      fig: "fig = common_layout (price_figure s xs ys)"
      by blast
    then have "sc_x (hd (fig_data fig)) = xs" "sc_y (hd (fig_data fig)) = ys"
      by (simp_all add: common_layout_fields price_figure_fields)
    with fig show ?thesis
      by simp
  qed
  have final: "title_x (fig_layout fig) = Some (1 / 2) \<and> width (fig_layout fig) = Some 800
      \<and> height (fig_layout fig) = Some 600 \<and> template (fig_layout fig) = Some ''plotly_white''"
  proof (cases "py_not symbol \<or> py_not start_date \<or> py_not end_date")
    case True
    from placeholder [OF True] show ?thesis
      by (simp add: common_layout_fields)
  next
    case False
    then obtain s where "symbol = Some s" "s \<noteq> []" "\<not> py_not start_date" "\<not> py_not end_date"
      by (auto simp: py_not_False)
    from chart [OF this] have
      "fig = common_layout (price_figure s (sc_x (hd (fig_data fig))) (sc_y (hd (fig_data fig))))" .
    then obtain f where "fig = common_layout f" ..
    then show ?thesis
      by (simp add: common_layout_fields)
  qed
  from final placeholder unset chart show ?thesis
    by (simp add: price_figure_fields)
qed

theorem update_graph_common_layout_witness:
  "update_graph sample_env (Some ''AAPL'') (Some ''2020-01-01'') (Some ''2020-01-03'') []
     = (Inr aapl_figure, [HttpGet aapl_request, ReadHtml ''<history page>''])
   \<and> ''AAPL'' \<noteq> [] \<and> \<not> py_not (Some ''2020-01-01'') \<and> \<not> py_not (Some ''2020-01-03'')
   \<and> aapl_figure
       = common_layout
           (price_figure ''AAPL'' [Stamp ''Jan 3, 2020'', Stamp ''Jan 2, 2020''] [NaN, Num 7288])
   \<and> width (fig_layout
         (price_figure ''AAPL'' [Stamp ''Jan 3, 2020'', Stamp ''Jan 2, 2020''] [NaN, Num 7288]))
       = Some 600
   \<and> height (fig_layout
         (price_figure ''AAPL'' [Stamp ''Jan 3, 2020'', Stamp ''Jan 2, 2020''] [NaN, Num 7288]))
       = Some 400
   \<and> width (fig_layout aapl_figure) = Some 800
   \<and> height (fig_layout aapl_figure) = Some 600
   \<and> title_x (fig_layout aapl_figure) = Some (1 / 2)
   \<and> template (fig_layout aapl_figure) = Some ''plotly_white''
   \<and> py_not None
   \<and> update_graph sample_env None None None [] = (Inr empty_figure, [])
   \<and> (empty_figure :: cell figure)
       = common_layout
           (update_layout (no_kwargs\<lparr>title_text := Some ''Loading Data...''\<rparr>)
              (add_trace \<lparr>sc_x = [], sc_y = [], sc_mode = ''lines''\<rparr> (Figure [])))
   \<and> width (fig_layout (empty_figure :: cell figure)) = Some 800
   \<and> height (fig_layout (empty_figure :: cell figure)) = Some 600"
proof -
  have guard: "update_graph sample_env None None None [] = (Inr empty_figure, [])"
    by (simp add: update_graph_guard py_not_def)
  have data: "sc_x (hd (fig_data aapl_figure)) = [Stamp ''Jan 3, 2020'', Stamp ''Jan 2, 2020'']"
    "sc_y (hd (fig_data aapl_figure)) = [NaN, Num 7288]"
    by (simp_all add: aapl_figure_def)
  from update_graph_common_layout [OF sample_update_graph]
    update_graph_common_layout [OF guard]
    sample_update_graph guard
  show ?thesis
    by (simp add: py_not_def data)
qed

text \<open>
  C10 (as amended). When any of symbol, start date and end date is empty or \<open>None\<close>,
  \<open>update_graph\<close> parses no date: it returns the placeholder figure and issues no
  request, whatever the date strings are. When all three are non-empty, \<open>update_graph\<close>
  requires both dates to parse in the format "%Y-%m-%d". If the start date does not
  parse, or it parses and converts and the end date does not parse, \<open>update_graph\<close>
  raises an unhandled ValueError before any HTTP request. If a parsed date cannot be
  converted to a timestamp, the exception of that conversion is raised instead, also
  before any request. If both parse and convert, period1 and period2 are the integer
  timestamps of the two dates and both appear verbatim in the URL of the one request
  issued.
\<close>

theorem update_graph_dates:
  assumes "out = update_graph E symbol start_date end_date tr"
  shows "(py_not symbol \<or> py_not start_date \<or> py_not end_date \<longrightarrow> out = (Inr empty_figure, tr))
         \<and> (\<forall>s a b. symbol = Some s \<and> start_date = Some a \<and> end_date = Some b
                 \<and> s \<noteq> [] \<and> a \<noteq> [] \<and> b \<noteq> []
               \<longrightarrow>
                 (strptime E a = None \<longrightarrow> out = (Inl ValueError, tr))
                 \<and> (\<forall>d1 e. strptime E a = Some d1 \<and> timestamp E d1 = Inl e
                       \<longrightarrow> out = (Inl e, tr))
                 \<and> (\<forall>d1 t1. strptime E a = Some d1 \<and> timestamp E d1 = Inr t1
                         \<and> strptime E b = None
                       \<longrightarrow> out = (Inl ValueError, tr))
                 \<and> (\<forall>d1 t1 d2 e. strptime E a = Some d1 \<and> timestamp E d1 = Inr t1
                         \<and> strptime E b = Some d2 \<and> timestamp E d2 = Inl e
                       \<longrightarrow> out = (Inl e, tr))
                 \<and> (\<forall>d1 t1 d2 t2. strptime E a = Some d1 \<and> timestamp E d1 = Inr t1
                         \<and> strptime E b = Some d2 \<and> timestamp E d2 = Inr t2
                       \<longrightarrow> http_gets (snd out)
                             = http_gets tr @
                                 [\<lparr>req_url = ''https://finance.yahoo.com/quote/'' @ s
                                      @ ''/history/?period1='' @ str_int (py_int t1)
                                      @ ''&period2='' @ str_int (py_int t2),
                                    req_headers = headers, req_timeout = None\<rparr>]))"
proof -
  have guard: "out = (Inr empty_figure, tr)"
    if "py_not symbol \<or> py_not start_date \<or> py_not end_date"
    unfolding assms using that by (simp add: update_graph_guard)
  have dates:
    "(strptime E a = None \<longrightarrow> out = (Inl ValueError, tr))
     \<and> (\<forall>d1 e. strptime E a = Some d1 \<and> timestamp E d1 = Inl e \<longrightarrow> out = (Inl e, tr))
     \<and> (\<forall>d1 t1. strptime E a = Some d1 \<and> timestamp E d1 = Inr t1 \<and> strptime E b = None
           \<longrightarrow> out = (Inl ValueError, tr))
     \<and> (\<forall>d1 t1 d2 e. strptime E a = Some d1 \<and> timestamp E d1 = Inr t1
             \<and> strptime E b = Some d2 \<and> timestamp E d2 = Inl e
           \<longrightarrow> out = (Inl e, tr))
     \<and> (\<forall>d1 t1 d2 t2. strptime E a = Some d1 \<and> timestamp E d1 = Inr t1
             \<and> strptime E b = Some d2 \<and> timestamp E d2 = Inr t2
           \<longrightarrow> http_gets (snd out)
                 = http_gets tr @
                     [\<lparr>req_url = ''https://finance.yahoo.com/quote/'' @ s
                          @ ''/history/?period1='' @ str_int (py_int t1)
                          @ ''&period2='' @ str_int (py_int t2),
                        req_headers = headers, req_timeout = None\<rparr>])"
    if args: "symbol = Some s" "start_date = Some a" "end_date = Some b"
      and ne: "s \<noteq> []" "a \<noteq> []" "b \<noteq> []"
    for s a b
  proof -
    have out: "out = update_graph E (Some s) (Some a) (Some b) tr"
      unfolding assms args ..
    have start_none: "out = (Inl ValueError, tr)" if "strptime E a = None"
      unfolding out using that ne
      by (simp add: update_graph_period_error(1) period_def)
    have start_stamp: "out = (Inl e, tr)"
      if "strptime E a = Some d1" "timestamp E d1 = Inl e" for d1 e
      unfolding out using that ne
      by (simp add: update_graph_period_error(1) period_def)
    have end_none: "out = (Inl ValueError, tr)"
      if "strptime E a = Some d1" "timestamp E d1 = Inr t1" "strptime E b = None"
      for d1 t1
      unfolding out using that ne
      by (simp add: update_graph_period_error(2) [where ?p1.0 = "py_int t1"] period_def)
    have end_stamp: "out = (Inl e, tr)"
      if "strptime E a = Some d1" "timestamp E d1 = Inr t1"
        "strptime E b = Some d2" "timestamp E d2 = Inl e"
      for d1 t1 d2 e
      unfolding out using that ne
      by (simp add: update_graph_period_error(2) [where ?p1.0 = "py_int t1"] period_def)
    have both: "http_gets (snd out)
        = http_gets tr @
            [\<lparr>req_url = ''https://finance.yahoo.com/quote/'' @ s
                 @ ''/history/?period1='' @ str_int (py_int t1)
                 @ ''&period2='' @ str_int (py_int t2),
               req_headers = headers, req_timeout = None\<rparr>]"
      if "strptime E a = Some d1" "timestamp E d1 = Inr t1"
        "strptime E b = Some d2" "timestamp E d2 = Inr t2"
      for d1 t1 d2 t2
    proof -
      from that have p: "period E a = Inr (py_int t1)" "period E b = Inr (py_int t2)"
        by (simp_all add: period_def)
      show ?thesis
        unfolding out update_graph_fetch [OF ne p] Let_def
        by (auto simp: http_gets_append url_history_def split: sum.splits list.splits)
    qed
    from start_none start_stamp end_none end_stamp both show ?thesis
      by blast
  qed
  show ?thesis
  proof (rule conjI)
    show "py_not symbol \<or> py_not start_date \<or> py_not end_date \<longrightarrow> out = (Inr empty_figure, tr)"
      by (rule impI) (rule guard)
  next
    show "\<forall>s a b. symbol = Some s \<and> start_date = Some a \<and> end_date = Some b
                 \<and> s \<noteq> [] \<and> a \<noteq> [] \<and> b \<noteq> []
               \<longrightarrow>
                 (strptime E a = None \<longrightarrow> out = (Inl ValueError, tr))
                 \<and> (\<forall>d1 e. strptime E a = Some d1 \<and> timestamp E d1 = Inl e
                       \<longrightarrow> out = (Inl e, tr))
                 \<and> (\<forall>d1 t1. strptime E a = Some d1 \<and> timestamp E d1 = Inr t1
                         \<and> strptime E b = None
                       \<longrightarrow> out = (Inl ValueError, tr))
                 \<and> (\<forall>d1 t1 d2 e. strptime E a = Some d1 \<and> timestamp E d1 = Inr t1
                         \<and> strptime E b = Some d2 \<and> timestamp E d2 = Inl e
                       \<longrightarrow> out = (Inl e, tr))
                 \<and> (\<forall>d1 t1 d2 t2. strptime E a = Some d1 \<and> timestamp E d1 = Inr t1
                         \<and> strptime E b = Some d2 \<and> timestamp E d2 = Inr t2
                       \<longrightarrow> http_gets (snd out)
                             = http_gets tr @
                                 [\<lparr>req_url = ''https://finance.yahoo.com/quote/'' @ s
                                      @ ''/history/?period1='' @ str_int (py_int t1)
                                      @ ''&period2='' @ str_int (py_int t2),
                                    req_headers = headers, req_timeout = None\<rparr>])"
      by (intro allI impI, elim conjE, rule dates)
  qed
qed

theorem update_graph_dates_witness:
  "py_not None \<and> strptime sample_env ''03.01.2020'' = None
   \<and> update_graph sample_env None (Some ''03.01.2020'') (Some ''2020-01-03'') [HttpGet stocks_request]
       = (Inr empty_figure, [HttpGet stocks_request])
   \<and> strptime sample_env ''01/02/2020'' = None
   \<and> update_graph sample_env (Some ''AAPL'') (Some ''01/02/2020'') (Some ''2020-01-03'') []
       = (Inl ValueError, [])
   \<and> strptime sample_env ''0001-01-01'' = Some \<lparr>dt_year = 1, dt_month = 1, dt_day = 1\<rparr>
   \<and> timestamp sample_env \<lparr>dt_year = 1, dt_month = 1, dt_day = 1\<rparr> = Inl ValueError
   \<and> update_graph sample_env (Some ''AAPL'') (Some ''0001-01-01'') (Some ''2020-01-03'') []
       = (Inl ValueError, [])
   \<and> strptime sample_env ''2020-01-01'' = Some \<lparr>dt_year = 2020, dt_month = 1, dt_day = 1\<rparr>
   \<and> timestamp sample_env \<lparr>dt_year = 2020, dt_month = 1, dt_day = 1\<rparr> = Inr 1577836800
   \<and> update_graph sample_env (Some ''AAPL'') (Some ''2020-01-01'') (Some ''01/02/2020'') []
       = (Inl ValueError, [])
   \<and> update_graph sample_env (Some ''AAPL'') (Some ''2020-01-01'') (Some ''0001-01-01'') []
       = (Inl ValueError, [])
   \<and> strptime sample_env ''2020-01-03'' = Some \<lparr>dt_year = 2020, dt_month = 1, dt_day = 3\<rparr>
   \<and> timestamp sample_env \<lparr>dt_year = 2020, dt_month = 1, dt_day = 3\<rparr> = Inr 1578009600
   \<and> http_gets (snd (update_graph sample_env (Some ''AAPL'') (Some ''2020-01-01'')
                      (Some ''2020-01-03'') []))
       = [\<lparr>req_url = ''https://finance.yahoo.com/quote/AAPL/history/?period1=1577836800&period2=1578009600'',
            req_headers = headers, req_timeout = None\<rparr>]"
proof -
  have parse: "strptime sample_env ''03.01.2020'' = None"
    "strptime sample_env ''01/02/2020'' = None"
    "strptime sample_env ''0001-01-01'' = Some \<lparr>dt_year = 1, dt_month = 1, dt_day = 1\<rparr>"
    "strptime sample_env ''2020-01-01'' = Some \<lparr>dt_year = 2020, dt_month = 1, dt_day = 1\<rparr>"
    "strptime sample_env ''2020-01-03'' = Some \<lparr>dt_year = 2020, dt_month = 1, dt_day = 3\<rparr>"
    by (simp_all add: sample_env_def sample_strptime_def)
  have stamp: "timestamp sample_env \<lparr>dt_year = 1, dt_month = 1, dt_day = 1\<rparr> = Inl ValueError"
    "timestamp sample_env \<lparr>dt_year = 2020, dt_month = 1, dt_day = 1\<rparr> = Inr 1577836800"
    "timestamp sample_env \<lparr>dt_year = 2020, dt_month = 1, dt_day = 3\<rparr> = Inr 1578009600"
    by (simp_all add: sample_env_def sample_timestamp_def)
  have str: "str_int (py_int 1577836800) = ''1577836800''"
    "str_int (py_int 1578009600) = ''1578009600''"
    by (simp_all add: py_int_def str_int_def str_nat.simps digit_char_def)
  from update_graph_dates [where E = sample_env and symbol = "None" and start_date = "Some ''03.01.2020''"
      and end_date = "Some ''2020-01-03''" and tr = "[HttpGet stocks_request]", OF refl]
    update_graph_dates [where E = sample_env and symbol = "Some ''AAPL''" and start_date = "Some ''01/02/2020''"
      and end_date = "Some ''2020-01-03''" and tr = "[]", OF refl]
    update_graph_dates [where E = sample_env and symbol = "Some ''AAPL''" and start_date = "Some ''0001-01-01''"
      and end_date = "Some ''2020-01-03''" and tr = "[]", OF refl]
    update_graph_dates [where E = sample_env and symbol = "Some ''AAPL''" and start_date = "Some ''2020-01-01''"
      and end_date = "Some ''01/02/2020''" and tr = "[]", OF refl]
    update_graph_dates [where E = sample_env and symbol = "Some ''AAPL''" and start_date = "Some ''2020-01-01''"
      and end_date = "Some ''0001-01-01''" and tr = "[]", OF refl]
    update_graph_dates [where E = sample_env and symbol = "Some ''AAPL''" and start_date = "Some ''2020-01-01''"
      and end_date = "Some ''2020-01-03''" and tr = "[]", OF refl]
    parse stamp
  show ?thesis
    by (simp add: str py_not_def)
qed

text \<open>The claim as stated fails when an input is empty or \<open>None\<close>: a date string that is
  not in the format then raises nothing, since the guard of line 94 returns the
  placeholder before any date is parsed.\<close>

theorem guard_precedes_date_parsing:
  "strptime sample_env ''01/02/2020'' = None
   \<and> update_graph sample_env None (Some ''01/02/2020'') (Some ''2020-01-03'') []
       = (Inr empty_figure, [])
   \<and> strptime sample_env [] = None
   \<and> update_graph sample_env (Some ''AAPL'') (Some []) (Some ''2020-01-03'') []
       = (Inr empty_figure, [])"
  by (simp add: update_graph_guard py_not_def sample_env_def sample_strptime_def)

end
